theory Spec2Isabelle
  imports Complex_Main
begin

section \<open>Snapshot intake and two-leg payment reconciliation\<close>

text \<open>
  A shallow embedding of \<^verbatim>\<open>snapshots.service.ts\<close> (\<^verbatim>\<open>handleSnapshot\<close>,
  \<^verbatim>\<open>createSnapshot\<close>, \<^verbatim>\<open>sendMixinTx\<close>, \<^verbatim>\<open>refund\<close>,
  \<^verbatim>\<open>fetchAndProcessSnapshots\<close>, \<^verbatim>\<open>handleSnapshots\<close>) and of the two listeners
  \<^verbatim>\<open>arbitrage.listener.ts\<close> and \<^verbatim>\<open>market_making.listener.ts\<close>.

  Every \<^verbatim>\<open>async\<close> method becomes a function from the system state to an outcome and
  the state it leaves: \<open>Inl e\<close> is a rejected promise (a \<^verbatim>\<open>throw\<close>), \<open>Inr v\<close> a
  resolved one. A \<^verbatim>\<open>try/catch\<close> is the case distinction on that outcome.
\<close>

subsection \<open>Data\<close>

text \<open>
  Amounts are the ledger's decimal strings; the model keeps the number they denote, which
  is what \<^verbatim>\<open>BigNumber(amount)\<close> reads.
\<close>

type_synonym amount = rat

text \<open>The fields of \<^verbatim>\<open>SafeSnapshot\<close> that the code reads. An absent memo is \<open>None\<close>.\<close>

record SafeSnapshot =
  snapshot_id :: string
  opponent_id :: string
  asset_id :: string
  amount :: amount
  memo :: "string option"

text \<open>
  The memo details carry the trace id and the pair symbol; the arbitrage and the
  market-making details extend them with the exchange names.
\<close>

record MemoDetails =
  traceId :: string
  symbol :: string

record ArbitrageMemoDetails = MemoDetails +
  exchangeAName :: string
  exchangeBName :: string

record MarketMakingMemoDetails = MemoDetails +
  exchangeName :: string

text \<open>The fields of the spot details are not read by the code modelled here.\<close>

type_synonym SpotMemoDetails = "string list"

text \<open>
  \<^verbatim>\<open>PaymentState\<close>. Isabelle's record fields share one name space, so the fields whose
  names also occur in the memo details or in the orders carry the prefix \<open>ps_\<close>.
  The three leg-2 fields are absent (\<open>None\<close>) until they are written.
\<close>

record PaymentState =
  ps_orderId :: string
  ps_type :: string
  ps_symbol :: string
  firstAssetId :: string
  firstAssetAmount :: amount
  firstSnapshotId :: string
  ps_createdAt :: string
  updatedAt :: string
  secondAssetId :: "string option"
  secondAssetAmount :: "amount option"
  secondSnapshotId :: "string option"

text \<open>
  The two order entities share the fields of \<open>StrategyOrder\<close>; the exchange names of
  an order carry the prefix \<open>ord_\<close>.
\<close>

record StrategyOrder =
  orderId :: string
  userId :: string
  pair :: string
  state :: string
  balanceA :: amount
  balanceB :: amount
  createdAt :: string

record ArbitrageOrder = StrategyOrder +
  amountToTrade :: string
  minProfitability :: string
  ord_exchangeAName :: string
  ord_exchangeBName :: string

datatype PriceSourceType = MID_PRICE

record MarketMakingOrder = StrategyOrder +
  ord_exchangeName :: string
  bidSpread :: string
  askSpread :: string
  orderAmount :: string
  orderRefreshTime :: string
  numberOfLayers :: string
  priceSourceType :: PriceSourceType
  amountChangePerLayer :: string
  amountChangeType :: string
  ceilingPrice :: string
  floorPrice :: string

datatype error = StoreError | LedgerError | TypeError

fun message :: "error \<Rightarrow> string" where
  "message StoreError = ''store error''"
| "message LedgerError = ''ledger error''"
| "message TypeError = ''Cannot read properties of undefined''"

text \<open>
  The ledger calls that \<^verbatim>\<open>sendMixinTx\<close> names, in the order of its text. Only the
  first is ever made: the function throws before the second (see below).
\<close>

datatype ledger_call = SafeOutputs | GhostKey | VerifyTransaction | SendTransactions

text \<open>
  The system state: the snapshot table (the processed-transfer markers), the payment
  states by trace id, the two order tables, the \<^verbatim>\<open>spot.create\<close> events emitted, the
  transactions submitted to the ledger (recipient, asset, amount) and the log.
\<close>

record sys =
  snapshots :: "SafeSnapshot list"
  paymentStates :: "string \<rightharpoonup> PaymentState"
  arbitrageOrders :: "ArbitrageOrder list"
  marketMakingOrders :: "MarketMakingOrder list"
  spotEvents :: "(SpotMemoDetails \<times> SafeSnapshot) list"
  sent :: "(string \<times> string \<times> amount) list"
  log :: "string list"

text \<open>
  What lies outside the process at the time of one call: the clock (\<open>clock n\<close> is what
  the \<open>n\<close>-th call of \<^verbatim>\<open>getRFC3339Timestamp\<close> inside one handler returns), the total of
  the unspent outputs per asset, the ledger call that throws (if one does), and whether
  a write to the snapshot table or to the payment-state table throws.
\<close>

record world =
  clock :: "nat \<Rightarrow> string"
  balance :: "string \<Rightarrow> amount"
  ledgerFault :: "ledger_call option"
  snapshotWriteFault :: bool
  paymentStateWriteFault :: bool

text \<open>
  The helpers that the code imports and that are not part of the files modelled: the two
  \<^verbatim>\<open>Buffer\<close> conversions of the Node runtime (\<^verbatim>\<open>Buffer.from(m, 'hex').toString('utf-8')\<close>
  and \<^verbatim>\<open>Buffer.from(m, 'base64').toString('utf-8')\<close>), the three memo decoders (a falsy
  result is \<open>None\<close>) and the pair registry (\<open>None\<close> for an \<^verbatim>\<open>undefined\<close> asset id).
  They are parameters of the model: every theorem holds for all of them.
\<close>

record helpers =
  hexToUtf8 :: "string \<Rightarrow> string"
  base64ToUtf8 :: "string \<Rightarrow> string"
  decodeSpotMemo :: "string \<Rightarrow> SpotMemoDetails option"
  decodeArbitrageMemo :: "string \<Rightarrow> ArbitrageMemoDetails option"
  decodeMarketMakingMemo :: "string \<Rightarrow> MarketMakingMemoDetails option"
  getAssetIDBySymbol :: "string \<Rightarrow> string option \<times> string option"

type_synonym 'a io = "sys \<Rightarrow> (error + 'a) \<times> sys"

text \<open>JavaScript's \<^verbatim>\<open>!s\<close> on an optional string: absent or empty.\<close>

definition falsy :: "string option \<Rightarrow> bool" where
  "falsy s = (case s of None \<Rightarrow> True | Some v \<Rightarrow> v = [])"

subsection \<open>The stores\<close>

text \<open>
  Modelled from the spec: the snapshot repository and the strategy user service are not
  among the source files. Section 6 of the spec gives them as a key-addressable store
  with \<^verbatim>\<open>get(transfer_id) -> bool\<close>, \<^verbatim>\<open>markProcessed\<close>, \<^verbatim>\<open>getPaymentState\<close>,
  \<^verbatim>\<open>putPaymentState\<close>, \<^verbatim>\<open>updatePaymentStateLeg2\<close> and the two order creations, and
  section 7 names the \<^verbatim>\<open>StoreError\<close> of a failed write. A table is a list that a
  creation appends to, so that a duplicate row would be seen.
\<close>

definition checkSnapshotExist :: "string \<Rightarrow> sys \<Rightarrow> bool" where
  "checkSnapshotExist sid st = (sid \<in> snapshot_id ` set (snapshots st))"

definition repoCreateSnapshot :: "world \<Rightarrow> SafeSnapshot \<Rightarrow> unit io" where
  "repoCreateSnapshot w s st =
     (if snapshotWriteFault w then (Inl StoreError, st)
      else (Inr (), st\<lparr>snapshots := snapshots st @ [s]\<rparr>))"

definition findPaymentStateByIdRaw :: "string \<Rightarrow> sys \<Rightarrow> PaymentState option" where
  "findPaymentStateByIdRaw tid st = paymentStates st tid"

definition createPaymentState :: "world \<Rightarrow> PaymentState \<Rightarrow> unit io" where
  "createPaymentState w ps st =
     (if paymentStateWriteFault w then (Inl StoreError, st)
      else (Inr (), st\<lparr>paymentStates := (paymentStates st)(ps_orderId ps \<mapsto> ps)\<rparr>))"

definition updatePaymentStateById ::
  "world \<Rightarrow> string \<Rightarrow> string \<Rightarrow> amount \<Rightarrow> string \<Rightarrow> string \<Rightarrow> unit io" where
  "updatePaymentStateById w tid aid amt sid upd st =
     (if paymentStateWriteFault w then (Inl StoreError, st)
      else (case paymentStates st tid of
              None \<Rightarrow> (Inr (), st)
            | Some ps \<Rightarrow>
                (Inr (), st\<lparr>paymentStates := (paymentStates st)(tid \<mapsto>
                   ps\<lparr>secondAssetId := Some aid, secondAssetAmount := Some amt,
                      secondSnapshotId := Some sid, updatedAt := upd\<rparr>)\<rparr>)))"

definition createArbitrage :: "ArbitrageOrder \<Rightarrow> unit io" where
  "createArbitrage ord st = (Inr (), st\<lparr>arbitrageOrders := arbitrageOrders st @ [ord]\<rparr>)"

definition createMarketMaking :: "MarketMakingOrder \<Rightarrow> unit io" where
  "createMarketMaking ord st =
     (Inr (), st\<lparr>marketMakingOrders := marketMakingOrders st @ [ord]\<rparr>)"

subsection \<open>SnapshotsService: createSnapshot, sendMixinTx, refund\<close>

text \<open>\<^verbatim>\<open>createSnapshot\<close> catches the repository's error, logs it and returns.\<close>

definition createSnapshot :: "world \<Rightarrow> SafeSnapshot \<Rightarrow> unit io" where
  "createSnapshot w s st =
     (case repoCreateSnapshot w s st of
        (Inl e, st') \<Rightarrow> (Inr (), st'\<lparr>log := log st' @ [''createSnapshot()=> '' @ message e]\<rparr>)
      | (Inr r, st') \<Rightarrow> (Inr r, st'))"

text \<open>
  \<^verbatim>\<open>sendMixinTx\<close> reads the unspent outputs and returns \<^verbatim>\<open>undefined\<close> (\<open>None\<close>)
  after logging when their total is less than the amount. Otherwise it builds the
  arguments of \<^verbatim>\<open>ghostKey\<close> by mapping every recipient \<^verbatim>\<open>r\<close> to an object with
  \<^verbatim>\<open>receivers: r[0].members\<close>. A recipient is the object that
  \<^verbatim>\<open>buildSafeTransactionRecipient\<close> returns, so \<^verbatim>\<open>r[0]\<close> is \<^verbatim>\<open>undefined\<close> and
  reading \<^verbatim>\<open>.members\<close> of it throws a \<^verbatim>\<open>TypeError\<close> before \<^verbatim>\<open>ghostKey\<close> is
  called (\<^verbatim>\<open>withdrawal\<close> in the same file reads \<^verbatim>\<open>r.members\<close>). The rest of the
  function, which would verify, sign and submit the transaction, is never reached, so
  \<^verbatim>\<open>sendMixinTx\<close> never returns a submitted transaction and never adds to \<open>sent\<close>.
\<close>

definition sendMixinTx ::
  "world \<Rightarrow> string \<Rightarrow> string \<Rightarrow> amount \<Rightarrow> (string \<times> string \<times> amount) option io" where
  "sendMixinTx w opponent asset amt st =
     (if ledgerFault w = Some SafeOutputs then (Inl LedgerError, st)
      else if balance w asset < amt
        then (Inr None, st\<lparr>log := log st @ [''Insufficient fund'']\<rparr>)
      else (Inl TypeError, st))"

definition refund :: "world \<Rightarrow> SafeSnapshot \<Rightarrow> unit io" where
  "refund w s st =
     (case sendMixinTx w (opponent_id s) (asset_id s) (amount s) st of
        (Inl e, st') \<Rightarrow>
          (Inr (), st'\<lparr>log := log st' @ [''Failed to refund snapshot: '' @ message e]\<rparr>)
      | (Inr r, st') \<Rightarrow> (Inr (), st'))"

subsection \<open>The listeners\<close>

text \<open>
  \<^verbatim>\<open>snapshot.asset_id != baseAssetID && snapshot.asset_id != targetAssetID\<close>, with an
  \<^verbatim>\<open>undefined\<close> registry entry different from every string.
\<close>

definition assetMismatch :: "helpers \<Rightarrow> string \<Rightarrow> SafeSnapshot \<Rightarrow> bool" where
  "assetMismatch h pairSymbol s =
     (case getAssetIDBySymbol h pairSymbol of
        (baseAssetID, targetAssetID) \<Rightarrow>
          Some (asset_id s) \<noteq> baseAssetID \<and> Some (asset_id s) \<noteq> targetAssetID)"

definition handleArbitrageCreate ::
  "helpers \<Rightarrow> world \<Rightarrow> ArbitrageMemoDetails option \<Rightarrow> SafeSnapshot option \<Rightarrow> unit io" where
  "handleArbitrageCreate h w details snapshot st =
     (case (details, snapshot) of
        (Some d, Some s) \<Rightarrow>
          (let paymentState = findPaymentStateByIdRaw (traceId d) st in
           if assetMismatch h (symbol d) s then refund w s st
           else (case paymentState of
              None \<Rightarrow>
                (let now = clock w 0 in
                 createPaymentState w
                   \<lparr>ps_orderId = traceId d, ps_type = ''arbitrage'', ps_symbol = symbol d,
                    firstAssetId = asset_id s, firstAssetAmount = amount s,
                    firstSnapshotId = snapshot_id s, ps_createdAt = now, updatedAt = now,
                    secondAssetId = None, secondAssetAmount = None,
                    secondSnapshotId = None\<rparr> st)
            | Some ps \<Rightarrow>
                if falsy (secondAssetId ps) then
                  (case updatePaymentStateById w (traceId d) (asset_id s) (amount s)
                          (snapshot_id s) (clock w 0) st of
                     (Inl e, st') \<Rightarrow> (Inl e, st')
                   | (Inr _, st') \<Rightarrow>
                       createArbitrage
                         \<lparr>orderId = traceId d, userId = opponent_id s, pair = symbol d,
                          state = ''created'', balanceA = firstAssetAmount ps,
                          balanceB = amount s, createdAt = clock w 1,
                          amountToTrade = ''1'', minProfitability = ''0.01'',
                          ord_exchangeAName = exchangeAName d,
                          ord_exchangeBName = exchangeBName d\<rparr> st')
                else (Inr (), st)))
      | _ \<Rightarrow>
          (Inr (), st\<lparr>log := log st @ [''Invalid arguments passed to handleArbitrageCreate'']\<rparr>))"

definition handleMarketMakingCreate ::
  "helpers \<Rightarrow> world \<Rightarrow> MarketMakingMemoDetails option \<Rightarrow> SafeSnapshot option \<Rightarrow> unit io" where
  "handleMarketMakingCreate h w details snapshot st =
     (case (details, snapshot) of
        (Some d, Some s) \<Rightarrow>
          (let paymentState = findPaymentStateByIdRaw (traceId d) st in
           if assetMismatch h (symbol d) s then refund w s st
           else (case paymentState of
              None \<Rightarrow>
                (let now = clock w 0 in
                 createPaymentState w
                   \<lparr>ps_orderId = traceId d, ps_type = ''market_making'', ps_symbol = symbol d,
                    firstAssetId = asset_id s, firstAssetAmount = amount s,
                    firstSnapshotId = snapshot_id s, ps_createdAt = now, updatedAt = now,
                    secondAssetId = None, secondAssetAmount = None,
                    secondSnapshotId = None\<rparr> st)
            | Some ps \<Rightarrow>
                if falsy (secondAssetId ps) then
                  (case updatePaymentStateById w (traceId d) (asset_id s) (amount s)
                          (snapshot_id s) (clock w 0) st of
                     (Inl e, st') \<Rightarrow> (Inl e, st')
                   | (Inr _, st') \<Rightarrow>
                       createMarketMaking
                         \<lparr>orderId = traceId d, userId = opponent_id s, pair = symbol d,
                          state = ''created'', balanceA = firstAssetAmount ps,
                          balanceB = amount s, createdAt = clock w 1,
                          ord_exchangeName = exchangeName d,
                          bidSpread = ''0.1'', askSpread = ''0.1'', orderAmount = ''1'',
                          orderRefreshTime = ''15000'', numberOfLayers = ''1'',
                          priceSourceType = MID_PRICE, amountChangePerLayer = ''1'',
                          amountChangeType = ''percentage'', ceilingPrice = ''0'',
                          floorPrice = ''0''\<rparr> st')
                else (Inr (), st)))
      | _ \<Rightarrow>
          (Inr (), st\<lparr>log := log st @ [''Invalid arguments passed to handleMarketMakingCreate'']\<rparr>))"

subsection \<open>SnapshotsService: handleSnapshot\<close>

text \<open>
  \<^verbatim>\<open>this.events.emit\<close> calls the listener and drops the promise it returns: the
  listener's effects on the state stay, its outcome (also a rejection) does not reach
  \<^verbatim>\<open>handleSnapshot\<close>. The model runs the listener to its end at the \<^verbatim>\<open>emit\<close>. In
  the code the listener only issues its read at the \<^verbatim>\<open>emit\<close> and writes later, after
  or around the marker write of its handler and in turns with other handlers; for one
  handler that runs alone the tables at the end are those of the model. What differs when
  listeners overlap is the subject of \<open>arbitrageAfterRead\<close> below. The spot listener is
  not among the source files; its event is recorded.
\<close>

definition emit :: "unit io \<Rightarrow> sys \<Rightarrow> sys" where
  "emit listener st = snd (listener st)"

definition warn :: "string \<Rightarrow> sys \<Rightarrow> sys" where
  "warn msg st = st\<lparr>log := log st @ [msg]\<rparr>"

definition handleSnapshot :: "helpers \<Rightarrow> world \<Rightarrow> SafeSnapshot \<Rightarrow> unit io" where
  "handleSnapshot h w snapshot st =
     (if checkSnapshotExist (snapshot_id snapshot) st then (Inr (), st)
      else if falsy (memo snapshot) then
        (Inr (), warn ''snapshot no memo, return'' (snd (createSnapshot w snapshot st)))
      else if length (the (memo snapshot)) = 0 then
        (Inr (), warn ''snapshot.memo.length === 0, return''
                   (snd (createSnapshot w snapshot st)))
      else
        (let hexDecoedMemo = hexToUtf8 h (the (memo snapshot));
             decodedMemo = base64ToUtf8 h hexDecoedMemo;
             tradingType = take 2 decodedMemo;
             st' =
               (if tradingType = ''SP'' then
                  (case decodeSpotMemo h decodedMemo of
                     None \<Rightarrow> st
                   | Some spotDetails \<Rightarrow>
                       st\<lparr>spotEvents := spotEvents st @ [(spotDetails, snapshot)]\<rparr>)
                else if tradingType = ''AR'' then
                  (case decodeArbitrageMemo h decodedMemo of
                     None \<Rightarrow> st
                   | Some arbDetails \<Rightarrow>
                       emit (handleArbitrageCreate h w (Some arbDetails) (Some snapshot)) st)
                else if tradingType = ''MM'' then
                  (case decodeMarketMakingMemo h decodedMemo of
                     None \<Rightarrow> st
                   | Some mmDetails \<Rightarrow>
                       emit (handleMarketMakingCreate h w (Some mmDetails) (Some snapshot)) st)
                else st)
         in createSnapshot w snapshot st'))"

subsection \<open>Listener calls in turn, and listener calls that overlap\<close>

text \<open>
  A listener reads the payment state first (\<^verbatim>\<open>await findPaymentStateByIdRaw\<close>, lines
  59 to 61) and decides and writes afterwards. \<open>arbitrageAfterRead\<close> is the arbitrage
  listener from line 63 on, given the payment state that its read returned; the store it
  writes to is the store of the moment, which another listener may have changed since the
  read. \<open>handleArbitrageCreate\<close> above is the case in which nothing was written between
  the read and the rest (lemma \<open>arbitrage_read_then_rest\<close>).
\<close>

definition arbitrageAfterRead ::
  "helpers \<Rightarrow> world \<Rightarrow> ArbitrageMemoDetails \<Rightarrow> SafeSnapshot \<Rightarrow> PaymentState option \<Rightarrow> unit io"
  where
  "arbitrageAfterRead h w d s paymentState st =
     (if assetMismatch h (symbol d) s then refund w s st
      else (case paymentState of
         None \<Rightarrow>
           (let now = clock w 0 in
            createPaymentState w
              \<lparr>ps_orderId = traceId d, ps_type = ''arbitrage'', ps_symbol = symbol d,
               firstAssetId = asset_id s, firstAssetAmount = amount s,
               firstSnapshotId = snapshot_id s, ps_createdAt = now, updatedAt = now,
               secondAssetId = None, secondAssetAmount = None,
               secondSnapshotId = None\<rparr> st)
       | Some ps \<Rightarrow>
           if falsy (secondAssetId ps) then
             (case updatePaymentStateById w (traceId d) (asset_id s) (amount s)
                     (snapshot_id s) (clock w 0) st of
                (Inl e, st') \<Rightarrow> (Inl e, st')
              | (Inr _, st') \<Rightarrow>
                  createArbitrage
                    \<lparr>orderId = traceId d, userId = opponent_id s, pair = symbol d,
                     state = ''created'', balanceA = firstAssetAmount ps,
                     balanceB = amount s, createdAt = clock w 1,
                     amountToTrade = ''1'', minProfitability = ''0.01'',
                     ord_exchangeAName = exchangeAName d,
                     ord_exchangeBName = exchangeBName d\<rparr> st')
           else (Inr (), st)))"








subsection \<open>The poll cycle\<close>

text \<open>
  \<^verbatim>\<open>fetchAndProcessSnapshots\<close> passes an \<^verbatim>\<open>async\<close> callback to \<^verbatim>\<open>forEach\<close>, which
  calls it for every snapshot and drops the promises: each call of \<^verbatim>\<open>handleSnapshot\<close>
  runs up to its first \<^verbatim>\<open>await\<close> (the dedup query) and is suspended there, and the
  function returns the snapshots. The process is therefore the store together with the
  handlers that have been started and have not ended: \<open>pending\<close> lists their
  transfers. \<^verbatim>\<open>handleSnapshots\<close> is what the scheduler calls every five seconds; the
  class has no other field than \<^verbatim>\<open>enableCron\<close> to decide whether a cycle runs. How
  the pending handlers take turns at their \<^verbatim>\<open>await\<close>s afterwards is not modelled here.
\<close>

record node =
  store :: sys
  pending :: "SafeSnapshot list"

text \<open>What \<^verbatim>\<open>fetchSafeSnapshots\<close> does: it throws, returns nothing, or returns a batch.\<close>

datatype fetched = FetchFailed | NoSnapshots | Fetched "SafeSnapshot list"

definition fetchAndProcessSnapshots :: "fetched \<Rightarrow> node \<Rightarrow> SafeSnapshot list option \<times> node" where
  "fetchAndProcessSnapshots f n =
     (case f of
        FetchFailed \<Rightarrow>
          (None, n\<lparr>store := warn (''Failed to fetch snapshots: '' @ message LedgerError)
                              (store n)\<rparr>)
      | NoSnapshots \<Rightarrow>
          (None, n\<lparr>store := warn ''fetchAndProcessSnapshots()=> No snapshots'' (store n)\<rparr>)
      | Fetched batch \<Rightarrow> (Some batch, n\<lparr>pending := pending n @ batch\<rparr>))"

definition handleSnapshots :: "bool \<Rightarrow> fetched \<Rightarrow> node \<Rightarrow> node" where
  "handleSnapshots enableCron f n =
     (if enableCron then snd (fetchAndProcessSnapshots f n) else n)"

text \<open>
  What archiving alone does to the state: the marker of the transfer is appended to the
  snapshot table (unless that write fails), and the payment states, the orders, the spot
  events and the submitted transactions are as before. The log is left open.
\<close>

definition archivedOnly :: "world \<Rightarrow> SafeSnapshot \<Rightarrow> sys \<Rightarrow> sys \<Rightarrow> bool" where
  "archivedOnly w s st st' =
     (snapshots st' = (if snapshotWriteFault w then snapshots st else snapshots st @ [s])
      \<and> paymentStates st' = paymentStates st
      \<and> arbitrageOrders st' = arbitrageOrders st
      \<and> marketMakingOrders st' = marketMakingOrders st
      \<and> spotEvents st' = spotEvents st
      \<and> sent st' = sent st)"

subsection \<open>An instance of the helpers and of the world, for the examples\<close>

text \<open>
  The examples below need concrete helpers. These decode well-formed hexadecimal and
  base64 text, split a memo at \<open>|\<close> and resolve the pair \<open>BTC/USDT\<close>; they are
  not the repository's decoders, and no theorem about the code depends on them.
\<close>

definition hexDigit :: "char \<Rightarrow> nat option" where
  "hexDigit c =
     (let n = (of_char c :: nat) in
      if 48 \<le> n \<and> n \<le> 57 then Some (n - 48)
      else if 97 \<le> n \<and> n \<le> 102 then Some (n - 87)
      else if 65 \<le> n \<and> n \<le> 70 then Some (n - 55)
      else None)"

fun hexBytes :: "string \<Rightarrow> string" where
  "hexBytes (a # b # r) =
     (case (hexDigit a, hexDigit b) of
        (Some x, Some y) \<Rightarrow> char_of (16 * x + y) # hexBytes r
      | _ \<Rightarrow> [])"
| "hexBytes _ = []"

definition b64Digit :: "char \<Rightarrow> nat option" where
  "b64Digit c =
     (let n = (of_char c :: nat) in
      if 65 \<le> n \<and> n \<le> 90 then Some (n - 65)
      else if 97 \<le> n \<and> n \<le> 122 then Some (n - 71)
      else if 48 \<le> n \<and> n \<le> 57 then Some (n + 4)
      else if n = 43 then Some 62
      else if n = 47 then Some 63
      else None)"

fun b64Bytes :: "nat list \<Rightarrow> string" where
  "b64Bytes (a # b # c # d # r) =
     char_of (4 * a + b div 16) # char_of (16 * (b mod 16) + c div 4) #
     char_of (64 * (c mod 4) + d) # b64Bytes r"
| "b64Bytes [a, b, c] = [char_of (4 * a + b div 16), char_of (16 * (b mod 16) + c div 4)]"
| "b64Bytes [a, b] = [char_of (4 * a + b div 16)]"
| "b64Bytes _ = []"

definition b64 :: "string \<Rightarrow> string" where
  "b64 s = b64Bytes (List.map_filter b64Digit (takeWhile (\<lambda>c. c \<noteq> CHR ''='') s))"

fun splitOn :: "char \<Rightarrow> string \<Rightarrow> string list" where
  "splitOn c [] = [[]]"
| "splitOn c (x # xs) =
     (if x = c then [] # splitOn c xs
      else (case splitOn c xs of [] \<Rightarrow> [[x]] | y # ys \<Rightarrow> (x # y) # ys))"

definition exampleAssets :: "string \<Rightarrow> string option" where
  "exampleAssets = map_of [(''BTC'', ''btc-asset''), (''USDT'', ''usdt-asset'')]"

definition exampleHelpers :: helpers where
  "exampleHelpers =
     \<lparr>hexToUtf8 = hexBytes,
      base64ToUtf8 = b64,
      decodeSpotMemo =
        (\<lambda>m. case splitOn CHR ''|'' m of [k, a, b, c] \<Rightarrow> Some [a, b, c] | _ \<Rightarrow> None),
      decodeArbitrageMemo =
        (\<lambda>m. case splitOn CHR ''|'' m of
                [k, t, p, a, b] \<Rightarrow>
                  Some \<lparr>traceId = t, symbol = p, exchangeAName = a, exchangeBName = b\<rparr>
              | _ \<Rightarrow> None),
      decodeMarketMakingMemo =
        (\<lambda>m. case splitOn CHR ''|'' m of
                [k, t, p, a] \<Rightarrow> Some \<lparr>traceId = t, symbol = p, exchangeName = a\<rparr>
              | _ \<Rightarrow> None),
      getAssetIDBySymbol =
        (\<lambda>p. case splitOn CHR ''/'' p of
                [b, t] \<Rightarrow> (exampleAssets b, exampleAssets t)
              | _ \<Rightarrow> (None, None))\<rparr>"

text \<open>A world in which nothing fails and the service holds 1000 of every asset.\<close>

definition calm :: world where
  "calm = \<lparr>clock = (\<lambda>n. if n = 0 then ''t0'' else ''t1''), balance = (\<lambda>a. 1000),
           ledgerFault = None, snapshotWriteFault = False,
           paymentStateWriteFault = False\<rparr>"

definition emptySys :: sys where
  "emptySys = \<lparr>snapshots = [], paymentStates = Map.empty, arbitrageOrders = [],
               marketMakingOrders = [], spotEvents = [], sent = [], log = []\<rparr>"

text \<open>
  The memo \<open>arMemo\<close> is the hexadecimal text of the base64 text of
  \<open>AR|X|BTC/USDT|okx|binance\<close>, \<open>mmMemo\<close> that of \<open>MM|Y|BTC/USDT|okx\<close>,
  \<open>badMemo\<close> that of \<open>AR|bad\<close> and \<open>otherMemo\<close> that of \<open>hello\<close>.
\<close>

definition arMemo :: string where
  "arMemo = ''51564a385748784356454d7656564e455648787661336838596d6c755957356a5a513d3d''"

definition mmMemo :: string where
  "mmMemo = ''545531385758784356454d7656564e45564878766133673d''"

definition badMemo :: string where
  "badMemo = ''51564a38596d466b''"

definition otherMemo :: string where
  "otherMemo = ''614756736247383d''"

definition transfer :: "string \<Rightarrow> string \<Rightarrow> amount \<Rightarrow> string option \<Rightarrow> SafeSnapshot" where
  "transfer sid asset amt m =
     \<lparr>snapshot_id = sid, opponent_id = ''alice'', asset_id = asset, amount = amt, memo = m\<rparr>"

definition arX :: ArbitrageMemoDetails where
  "arX = \<lparr>traceId = ''X'', symbol = ''BTC/USDT'', exchangeAName = ''okx'',
          exchangeBName = ''binance''\<rparr>"

definition mmY :: MarketMakingMemoDetails where
  "mmY = \<lparr>traceId = ''Y'', symbol = ''BTC/USDT'', exchangeName = ''okx''\<rparr>"


section \<open>Properties\<close>

subsection \<open>Frame and step lemmas\<close>

lemma sendMixinTx_frame [simp]:
  "paymentStates (snd (sendMixinTx w opp a amt st)) = paymentStates st"
  "arbitrageOrders (snd (sendMixinTx w opp a amt st)) = arbitrageOrders st"
  "marketMakingOrders (snd (sendMixinTx w opp a amt st)) = marketMakingOrders st"
  "snapshots (snd (sendMixinTx w opp a amt st)) = snapshots st"
  "spotEvents (snd (sendMixinTx w opp a amt st)) = spotEvents st"
  by (simp_all add: sendMixinTx_def)

lemma refund_frame [simp]:
  "paymentStates (snd (refund w s st)) = paymentStates st"
  "arbitrageOrders (snd (refund w s st)) = arbitrageOrders st"
  "marketMakingOrders (snd (refund w s st)) = marketMakingOrders st"
  "snapshots (snd (refund w s st)) = snapshots st"
  "spotEvents (snd (refund w s st)) = spotEvents st"
  by (simp_all add: refund_def sendMixinTx_def)

lemma refund_returns [simp]: "fst (refund w s st) = Inr ()"
  by (simp add: refund_def split: prod.splits sum.splits)

lemma refund_never_submits [simp]: "sent (snd (refund w s st)) = sent st"
  by (simp add: refund_def sendMixinTx_def)

lemma sendMixinTx_throws:
  "ledgerFault w \<noteq> Some SafeOutputs \<Longrightarrow> amt \<le> balance w asset \<Longrightarrow>
   sendMixinTx w opponent asset amt st = (Inl TypeError, st)"
  by (simp add: sendMixinTx_def)

lemma refund_throws:
  "ledgerFault w \<noteq> Some SafeOutputs \<Longrightarrow> amount s \<le> balance w (asset_id s) \<Longrightarrow>
   refund w s st =
     (Inr (), st\<lparr>log := log st @
        [''Failed to refund snapshot: Cannot read properties of undefined'']\<rparr>)"
  by (simp add: refund_def sendMixinTx_def)

lemma refund_short:
  "ledgerFault w \<noteq> Some SafeOutputs \<Longrightarrow> balance w (asset_id s) < amount s \<Longrightarrow>
   refund w s st = (Inr (), st\<lparr>log := log st @ [''Insufficient fund'']\<rparr>)"
  by (simp add: refund_def sendMixinTx_def)

lemma arb_mismatch:
  "assetMismatch h (symbol d) s \<Longrightarrow>
   handleArbitrageCreate h w (Some d) (Some s) st = refund w s st"
  by (simp add: handleArbitrageCreate_def)

lemma mm_mismatch:
  "assetMismatch h (symbol d) s \<Longrightarrow>
   handleMarketMakingCreate h w (Some d) (Some s) st = refund w s st"
  by (simp add: handleMarketMakingCreate_def)

lemma arb_first_leg:
  "\<not> assetMismatch h (symbol d) s \<Longrightarrow> paymentStates st (traceId d) = None \<Longrightarrow>
   \<not> paymentStateWriteFault w \<Longrightarrow>
   handleArbitrageCreate h w (Some d) (Some s) st =
     (Inr (), st\<lparr>paymentStates := (paymentStates st)(traceId d \<mapsto>
        \<lparr>ps_orderId = traceId d, ps_type = ''arbitrage'', ps_symbol = symbol d,
         firstAssetId = asset_id s, firstAssetAmount = amount s,
         firstSnapshotId = snapshot_id s, ps_createdAt = clock w 0, updatedAt = clock w 0,
         secondAssetId = None, secondAssetAmount = None, secondSnapshotId = None\<rparr>)\<rparr>)"
  by (simp add: handleArbitrageCreate_def findPaymentStateByIdRaw_def createPaymentState_def
      Let_def)

lemma mm_first_leg:
  "\<not> assetMismatch h (symbol d) s \<Longrightarrow> paymentStates st (traceId d) = None \<Longrightarrow>
   \<not> paymentStateWriteFault w \<Longrightarrow>
   handleMarketMakingCreate h w (Some d) (Some s) st =
     (Inr (), st\<lparr>paymentStates := (paymentStates st)(traceId d \<mapsto>
        \<lparr>ps_orderId = traceId d, ps_type = ''market_making'', ps_symbol = symbol d,
         firstAssetId = asset_id s, firstAssetAmount = amount s,
         firstSnapshotId = snapshot_id s, ps_createdAt = clock w 0, updatedAt = clock w 0,
         secondAssetId = None, secondAssetAmount = None, secondSnapshotId = None\<rparr>)\<rparr>)"
  by (simp add: handleMarketMakingCreate_def findPaymentStateByIdRaw_def
      createPaymentState_def Let_def)

lemma arb_second_leg:
  "\<not> assetMismatch h (symbol d) s \<Longrightarrow> paymentStates st (traceId d) = Some ps \<Longrightarrow>
   falsy (secondAssetId ps) \<Longrightarrow> \<not> paymentStateWriteFault w \<Longrightarrow>
   handleArbitrageCreate h w (Some d) (Some s) st =
     (Inr (), st\<lparr>paymentStates := (paymentStates st)(traceId d \<mapsto>
          ps\<lparr>secondAssetId := Some (asset_id s), secondAssetAmount := Some (amount s),
             secondSnapshotId := Some (snapshot_id s), updatedAt := clock w 0\<rparr>),
        arbitrageOrders := arbitrageOrders st @
          [\<lparr>orderId = traceId d, userId = opponent_id s, pair = symbol d,
            state = ''created'', balanceA = firstAssetAmount ps,
            balanceB = amount s, createdAt = clock w 1,
            amountToTrade = ''1'', minProfitability = ''0.01'',
            ord_exchangeAName = exchangeAName d,
            ord_exchangeBName = exchangeBName d\<rparr>]\<rparr>)"
  by (simp add: handleArbitrageCreate_def findPaymentStateByIdRaw_def
      updatePaymentStateById_def createArbitrage_def)

lemma mm_second_leg:
  "\<not> assetMismatch h (symbol d) s \<Longrightarrow> paymentStates st (traceId d) = Some ps \<Longrightarrow>
   falsy (secondAssetId ps) \<Longrightarrow> \<not> paymentStateWriteFault w \<Longrightarrow>
   handleMarketMakingCreate h w (Some d) (Some s) st =
     (Inr (), st\<lparr>paymentStates := (paymentStates st)(traceId d \<mapsto>
          ps\<lparr>secondAssetId := Some (asset_id s), secondAssetAmount := Some (amount s),
             secondSnapshotId := Some (snapshot_id s), updatedAt := clock w 0\<rparr>),
        marketMakingOrders := marketMakingOrders st @
          [\<lparr>orderId = traceId d, userId = opponent_id s, pair = symbol d,
            state = ''created'', balanceA = firstAssetAmount ps,
            balanceB = amount s, createdAt = clock w 1,
            ord_exchangeName = exchangeName d,
            bidSpread = ''0.1'', askSpread = ''0.1'', orderAmount = ''1'',
            orderRefreshTime = ''15000'', numberOfLayers = ''1'',
            priceSourceType = MID_PRICE, amountChangePerLayer = ''1'',
            amountChangeType = ''percentage'', ceilingPrice = ''0'',
            floorPrice = ''0''\<rparr>]\<rparr>)"
  by (simp add: handleMarketMakingCreate_def findPaymentStateByIdRaw_def
      updatePaymentStateById_def createMarketMaking_def)



lemma example_pair [simp]:
  "getAssetIDBySymbol exampleHelpers ''BTC/USDT'' = (Some ''btc-asset'', Some ''usdt-asset'')"
  by (simp add: exampleHelpers_def exampleAssets_def)

subsection \<open>Refunds\<close>

text \<open>
  C9. When the amount to refund exceeds the total of the service's unspent outputs of the
  asset (and the outputs could be read), \<^verbatim>\<open>sendMixinTx\<close> logs \<^verbatim>\<open>Insufficient fund\<close>
  and returns \<^verbatim>\<open>undefined\<close>: no transaction is submitted and no error is raised.
  \<^verbatim>\<open>refund\<close> then resolves exactly as it does in every other world, whatever
  became of the refund there, so its caller cannot tell the outcomes apart.
\<close>

theorem insufficient_balance_refund_is_silent:
  assumes "ledgerFault w \<noteq> Some SafeOutputs" and "balance w (asset_id s) < amount s"
  shows "sendMixinTx w (opponent_id s) (asset_id s) (amount s) st =
           (Inr None, st\<lparr>log := log st @ [''Insufficient fund'']\<rparr>)
       \<and> refund w s st = (Inr (), st\<lparr>log := log st @ [''Insufficient fund'']\<rparr>)
       \<and> sent (snd (refund w s st)) = sent st
       \<and> (\<forall>w' st'. fst (refund w' s st') = fst (refund w s st))"
  using assms by (simp add: sendMixinTx_def refund_short)

theorem insufficient_balance_refund_is_silent_witness:
  "ledgerFault (calm\<lparr>balance := \<lambda>a. 1\<rparr>) \<noteq> Some SafeOutputs
   \<and> balance (calm\<lparr>balance := \<lambda>a. 1\<rparr>) (asset_id (transfer ''3'' ''eth-asset'' 2 None))
       < amount (transfer ''3'' ''eth-asset'' 2 None)
   \<and> refund (calm\<lparr>balance := \<lambda>a. 1\<rparr>) (transfer ''3'' ''eth-asset'' 2 None) emptySys =
       (Inr (), emptySys\<lparr>log := [''Insufficient fund'']\<rparr>)
   \<and> fst (refund calm (transfer ''3'' ''eth-asset'' 2 None) emptySys) =
       fst (refund (calm\<lparr>balance := \<lambda>a. 1\<rparr>) (transfer ''3'' ''eth-asset'' 2 None) emptySys)
   \<and> sent (snd (refund (calm\<lparr>balance := \<lambda>a. 1\<rparr>)
        (transfer ''3'' ''eth-asset'' 2 None) emptySys)) = []"
proof -
  let ?w = "calm\<lparr>balance := \<lambda>a. 1\<rparr>"
  let ?s = "transfer ''3'' ''eth-asset'' 2 None"
  have a: "ledgerFault ?w \<noteq> Some SafeOutputs"
    by (simp add: calm_def)
  have b: "balance ?w (asset_id ?s) < amount ?s"
    by (simp add: transfer_def)
  from insufficient_balance_refund_is_silent [OF a b, of emptySys] a b show ?thesis
    by (simp add: emptySys_def)
qed

text \<open>
  C3 at a failing input. The transfer \<open>3\<close> carries 2 of an asset that is neither the
  base nor the target asset of \<open>BTC/USDT\<close>; the service holds 1000 of that asset and no
  ledger call fails. Both listeners hand the transfer to \<^verbatim>\<open>refund\<close> and touch neither
  the payment states nor the orders, as C3 says. But \<^verbatim>\<open>sendMixinTx\<close> passes the
  balance check and then throws the \<^verbatim>\<open>TypeError\<close> of \<^verbatim>\<open>r[0].members\<close>, \<^verbatim>\<open>refund\<close>
  catches and logs it, and nothing is submitted: the amount is not returned to the
  sender. This is so for every transfer and in every world, since no call of \<^verbatim>\<open>refund\<close>
  adds to the submitted transactions.
\<close>

theorem asset_mismatch_refund_is_not_sent:
  "assetMismatch exampleHelpers (symbol arX) (transfer ''3'' ''eth-asset'' 2 (Some arMemo))
   \<and> assetMismatch exampleHelpers (symbol mmY) (transfer ''3'' ''eth-asset'' 2 (Some mmMemo))
   \<and> ledgerFault calm = None
   \<and> amount (transfer ''3'' ''eth-asset'' 2 (Some arMemo)) \<le> balance calm ''eth-asset''
   \<and> sendMixinTx calm ''alice'' ''eth-asset'' 2 emptySys = (Inl TypeError, emptySys)
   \<and> handleArbitrageCreate exampleHelpers calm (Some arX)
        (Some (transfer ''3'' ''eth-asset'' 2 (Some arMemo))) emptySys =
      (Inr (), emptySys\<lparr>log :=
         [''Failed to refund snapshot: Cannot read properties of undefined'']\<rparr>)
   \<and> handleMarketMakingCreate exampleHelpers calm (Some mmY)
        (Some (transfer ''3'' ''eth-asset'' 2 (Some mmMemo))) emptySys =
      (Inr (), emptySys\<lparr>log :=
         [''Failed to refund snapshot: Cannot read properties of undefined'']\<rparr>)
   \<and> sent (snd (handleArbitrageCreate exampleHelpers calm (Some arX)
        (Some (transfer ''3'' ''eth-asset'' 2 (Some arMemo))) emptySys)) = []
   \<and> sent (snd (refund w s st)) = sent st"
proof -
  let ?s = "transfer ''3'' ''eth-asset'' 2 (Some arMemo)"
  let ?s' = "transfer ''3'' ''eth-asset'' 2 (Some mmMemo)"
  have a: "assetMismatch exampleHelpers (symbol arX) ?s"
    by (simp add: assetMismatch_def arX_def transfer_def)
  have b: "assetMismatch exampleHelpers (symbol mmY) ?s'"
    by (simp add: assetMismatch_def mmY_def transfer_def)
  have c: "refund calm (transfer ''3'' ''eth-asset'' 2 mo) emptySys =
      (Inr (), emptySys\<lparr>log :=
         [''Failed to refund snapshot: Cannot read properties of undefined'']\<rparr>)" for mo
    by (simp add: refund_throws calm_def transfer_def emptySys_def)
  have d: "sendMixinTx calm ''alice'' ''eth-asset'' 2 emptySys = (Inl TypeError, emptySys)"
    by (simp add: sendMixinTx_throws calm_def)
  have e: "sent emptySys = []"
    by (simp add: emptySys_def)
  from a b c d e show ?thesis
    by (simp add: arb_mismatch mm_mismatch calm_def transfer_def)
qed

subsection \<open>Facts about the example instance\<close>

lemma arX_simps [simp]:
  "traceId arX = ''X''" "symbol arX = ''BTC/USDT''"
  "exchangeAName arX = ''okx''" "exchangeBName arX = ''binance''"
  by (simp_all add: arX_def)

lemma mmY_simps [simp]:
  "traceId mmY = ''Y''" "symbol mmY = ''BTC/USDT''" "exchangeName mmY = ''okx''"
  by (simp_all add: mmY_def)

lemma transfer_simps [simp]:
  "snapshot_id (transfer i a n m) = i" "opponent_id (transfer i a n m) = ''alice''"
  "asset_id (transfer i a n m) = a" "amount (transfer i a n m) = n"
  "memo (transfer i a n m) = m"
  by (simp_all add: transfer_def)

lemma calm_simps [simp]:
  "clock calm 0 = ''t0''" "clock calm (Suc 0) = ''t1''" "balance calm a = 1000"
  "ledgerFault calm = None" "\<not> snapshotWriteFault calm" "\<not> paymentStateWriteFault calm"
  by (simp_all add: calm_def)

lemma emptySys_simps [simp]:
  "snapshots emptySys = []" "paymentStates emptySys = Map.empty"
  "arbitrageOrders emptySys = []" "marketMakingOrders emptySys = []"
  "spotEvents emptySys = []" "sent emptySys = []" "log emptySys = []"
  by (simp_all add: emptySys_def)

lemma example_valid [simp]:
  "\<not> assetMismatch exampleHelpers ''BTC/USDT'' (transfer i ''btc-asset'' n m)"
  "\<not> assetMismatch exampleHelpers ''BTC/USDT'' (transfer i ''usdt-asset'' n m)"
  "assetMismatch exampleHelpers ''BTC/USDT'' (transfer i ''eth-asset'' n m)"
  by (simp_all add: assetMismatch_def)

subsection \<open>The two legs of a payment\<close>

text \<open>
  C2. A transfer whose asset is the base or the target asset of its instruction's pair,
  with the payment-state table writable: when no payment state exists for the trace id,
  the listener creates one whose leg-1 fields (first asset id, first amount, first
  snapshot id, both timestamps) come from this transfer, and nothing else changes, so no
  order is created; when a payment state exists whose second asset id is unset, the
  listener writes the leg-2 fields from this transfer and appends one order of its own
  kind, in state \<^verbatim>\<open>created\<close>, with \<^verbatim>\<open>balanceA\<close> the first leg's amount and
  \<^verbatim>\<open>balanceB\<close> this transfer's amount.
\<close>

theorem two_leg_transitions:
  assumes "\<not> assetMismatch h (symbol d) s" and "\<not> assetMismatch h (symbol m) s"
    and "\<not> paymentStateWriteFault w"
  shows "(paymentStates st (traceId d) = None \<longrightarrow>
            handleArbitrageCreate h w (Some d) (Some s) st =
              (Inr (), st\<lparr>paymentStates := (paymentStates st)(traceId d \<mapsto>
                 \<lparr>ps_orderId = traceId d, ps_type = ''arbitrage'', ps_symbol = symbol d,
                  firstAssetId = asset_id s, firstAssetAmount = amount s,
                  firstSnapshotId = snapshot_id s, ps_createdAt = clock w 0,
                  updatedAt = clock w 0, secondAssetId = None, secondAssetAmount = None,
                  secondSnapshotId = None\<rparr>)\<rparr>))
       \<and> (paymentStates st (traceId m) = None \<longrightarrow>
            handleMarketMakingCreate h w (Some m) (Some s) st =
              (Inr (), st\<lparr>paymentStates := (paymentStates st)(traceId m \<mapsto>
                 \<lparr>ps_orderId = traceId m, ps_type = ''market_making'', ps_symbol = symbol m,
                  firstAssetId = asset_id s, firstAssetAmount = amount s,
                  firstSnapshotId = snapshot_id s, ps_createdAt = clock w 0,
                  updatedAt = clock w 0, secondAssetId = None, secondAssetAmount = None,
                  secondSnapshotId = None\<rparr>)\<rparr>))
       \<and> (\<forall>ps. paymentStates st (traceId d) = Some ps \<and> falsy (secondAssetId ps) \<longrightarrow>
            handleArbitrageCreate h w (Some d) (Some s) st =
              (Inr (), st\<lparr>paymentStates := (paymentStates st)(traceId d \<mapsto>
                   ps\<lparr>secondAssetId := Some (asset_id s),
                      secondAssetAmount := Some (amount s),
                      secondSnapshotId := Some (snapshot_id s), updatedAt := clock w 0\<rparr>),
                 arbitrageOrders := arbitrageOrders st @
                   [\<lparr>orderId = traceId d, userId = opponent_id s, pair = symbol d,
                     state = ''created'', balanceA = firstAssetAmount ps,
                     balanceB = amount s, createdAt = clock w 1,
                     amountToTrade = ''1'', minProfitability = ''0.01'',
                     ord_exchangeAName = exchangeAName d,
                     ord_exchangeBName = exchangeBName d\<rparr>]\<rparr>))
       \<and> (\<forall>ps. paymentStates st (traceId m) = Some ps \<and> falsy (secondAssetId ps) \<longrightarrow>
            handleMarketMakingCreate h w (Some m) (Some s) st =
              (Inr (), st\<lparr>paymentStates := (paymentStates st)(traceId m \<mapsto>
                   ps\<lparr>secondAssetId := Some (asset_id s),
                      secondAssetAmount := Some (amount s),
                      secondSnapshotId := Some (snapshot_id s), updatedAt := clock w 0\<rparr>),
                 marketMakingOrders := marketMakingOrders st @
                   [\<lparr>orderId = traceId m, userId = opponent_id s, pair = symbol m,
                     state = ''created'', balanceA = firstAssetAmount ps,
                     balanceB = amount s, createdAt = clock w 1,
                     ord_exchangeName = exchangeName m,
                     bidSpread = ''0.1'', askSpread = ''0.1'', orderAmount = ''1'',
                     orderRefreshTime = ''15000'', numberOfLayers = ''1'',
                     priceSourceType = MID_PRICE, amountChangePerLayer = ''1'',
                     amountChangeType = ''percentage'', ceilingPrice = ''0'',
                     floorPrice = ''0''\<rparr>]\<rparr>))"
  using assms by (simp add: arb_first_leg mm_first_leg arb_second_leg mm_second_leg)

theorem two_leg_transitions_witness:
  "\<not> assetMismatch exampleHelpers (symbol arX) (transfer ''1'' ''btc-asset'' (1/10) (Some arMemo))
   \<and> \<not> assetMismatch exampleHelpers (symbol mmY) (transfer ''2'' ''usdt-asset'' 2500 (Some mmMemo))
   \<and> \<not> paymentStateWriteFault calm
   \<and> handleArbitrageCreate exampleHelpers calm (Some arX)
        (Some (transfer ''1'' ''btc-asset'' (1/10) (Some arMemo))) emptySys =
       (Inr (), emptySys\<lparr>paymentStates := [''X'' \<mapsto>
         \<lparr>ps_orderId = ''X'', ps_type = ''arbitrage'', ps_symbol = ''BTC/USDT'',
          firstAssetId = ''btc-asset'', firstAssetAmount = 1/10, firstSnapshotId = ''1'',
          ps_createdAt = ''t0'', updatedAt = ''t0'', secondAssetId = None,
          secondAssetAmount = None, secondSnapshotId = None\<rparr>]\<rparr>)
   \<and> arbitrageOrders (snd (handleArbitrageCreate exampleHelpers calm (Some arX)
          (Some (transfer ''2'' ''usdt-asset'' 2500 (Some arMemo)))
          (snd (handleArbitrageCreate exampleHelpers calm (Some arX)
             (Some (transfer ''1'' ''btc-asset'' (1/10) (Some arMemo))) emptySys)))) =
       [\<lparr>orderId = ''X'', userId = ''alice'', pair = ''BTC/USDT'', state = ''created'',
         balanceA = 1/10, balanceB = 2500, createdAt = ''t1'', amountToTrade = ''1'',
         minProfitability = ''0.01'', ord_exchangeAName = ''okx'',
         ord_exchangeBName = ''binance''\<rparr>]
   \<and> map (\<lambda>ord. (orderId ord, state ord, balanceA ord, balanceB ord))
        (marketMakingOrders (snd (handleMarketMakingCreate exampleHelpers calm (Some mmY)
          (Some (transfer ''2'' ''usdt-asset'' 2500 (Some mmMemo)))
          (snd (handleMarketMakingCreate exampleHelpers calm (Some mmY)
             (Some (transfer ''1'' ''btc-asset'' (1/10) (Some mmMemo))) emptySys))))) =
       [(''Y'', ''created'', 1/10, 2500)]"
proof -
  let ?a = "transfer ''1'' ''btc-asset'' (1/10) (Some arMemo)"
  let ?b = "transfer ''2'' ''usdt-asset'' 2500 (Some arMemo)"
  let ?a' = "transfer ''1'' ''btc-asset'' (1/10) (Some mmMemo)"
  let ?b' = "transfer ''2'' ''usdt-asset'' 2500 (Some mmMemo)"
  have v: "\<not> assetMismatch exampleHelpers (symbol arX) ?a"
    "\<not> assetMismatch exampleHelpers (symbol arX) ?b"
    "\<not> assetMismatch exampleHelpers (symbol mmY) ?a'"
    "\<not> assetMismatch exampleHelpers (symbol mmY) ?b'"
    "\<not> assetMismatch exampleHelpers (symbol mmY) ?a"
    "\<not> assetMismatch exampleHelpers (symbol mmY) ?b"
    "\<not> assetMismatch exampleHelpers (symbol arX) ?a'"
    "\<not> assetMismatch exampleHelpers (symbol arX) ?b'"
    by simp_all
  have w: "\<not> paymentStateWriteFault calm"
    by simp
  have ar1: "handleArbitrageCreate exampleHelpers calm (Some arX) (Some ?a) emptySys =
      (Inr (), emptySys\<lparr>paymentStates := [''X'' \<mapsto>
         \<lparr>ps_orderId = ''X'', ps_type = ''arbitrage'', ps_symbol = ''BTC/USDT'',
          firstAssetId = ''btc-asset'', firstAssetAmount = 1/10, firstSnapshotId = ''1'',
          ps_createdAt = ''t0'', updatedAt = ''t0'', secondAssetId = None,
          secondAssetAmount = None, secondSnapshotId = None\<rparr>]\<rparr>)"
    using two_leg_transitions [OF v(1) v(5) w, of emptySys] by simp
  have mm1: "handleMarketMakingCreate exampleHelpers calm (Some mmY) (Some ?a') emptySys =
      (Inr (), emptySys\<lparr>paymentStates := [''Y'' \<mapsto>
         \<lparr>ps_orderId = ''Y'', ps_type = ''market_making'', ps_symbol = ''BTC/USDT'',
          firstAssetId = ''btc-asset'', firstAssetAmount = 1/10, firstSnapshotId = ''1'',
          ps_createdAt = ''t0'', updatedAt = ''t0'', secondAssetId = None,
          secondAssetAmount = None, secondSnapshotId = None\<rparr>]\<rparr>)"
    using two_leg_transitions [OF v(7) v(3) w, of emptySys] by simp
  have ar2: "arbitrageOrders (snd (handleArbitrageCreate exampleHelpers calm (Some arX)
          (Some ?b) (snd (handleArbitrageCreate exampleHelpers calm (Some arX) (Some ?a) emptySys)))) =
       [\<lparr>orderId = ''X'', userId = ''alice'', pair = ''BTC/USDT'', state = ''created'',
         balanceA = 1/10, balanceB = 2500, createdAt = ''t1'', amountToTrade = ''1'',
         minProfitability = ''0.01'', ord_exchangeAName = ''okx'',
         ord_exchangeBName = ''binance''\<rparr>]"
    using two_leg_transitions [OF v(2) v(6) w,
        of "snd (handleArbitrageCreate exampleHelpers calm (Some arX) (Some ?a) emptySys)"]
    by (simp add: ar1 falsy_def)
  have mm2: "map (\<lambda>ord. (orderId ord, state ord, balanceA ord, balanceB ord))
        (marketMakingOrders (snd (handleMarketMakingCreate exampleHelpers calm (Some mmY)
          (Some ?b') (snd (handleMarketMakingCreate exampleHelpers calm (Some mmY) (Some ?a') emptySys))))) =
       [(''Y'', ''created'', 1/10, 2500)]"
    using two_leg_transitions [OF v(8) v(4) w,
        of "snd (handleMarketMakingCreate exampleHelpers calm (Some mmY) (Some ?a') emptySys)"]
    by (simp add: mm1 falsy_def)
  from v(1) v(4) w ar1 ar2 mm2 show ?thesis
    by simp
qed

text \<open>
  C10. The listeners do not compare the asset of the second leg with that of the first.
  For a payment state that awaits its second leg, a transfer in the asset of the first
  leg (one of the two assets of the pair) fills leg 2 with that same asset, and the order
  that is created has \<^verbatim>\<open>balanceA\<close> and \<^verbatim>\<open>balanceB\<close> both taken from transfers of that
  one asset.
\<close>

theorem same_asset_fills_second_leg:
  assumes "traceId d = T" and "traceId m = T"
    and "paymentStates st T = Some ps" and "falsy (secondAssetId ps)"
    and "asset_id s = firstAssetId ps"
    and "\<not> assetMismatch h (symbol d) s" and "\<not> assetMismatch h (symbol m) s"
    and "\<not> paymentStateWriteFault w"
  shows "paymentStates (snd (handleArbitrageCreate h w (Some d) (Some s) st)) T =
           Some (ps\<lparr>secondAssetId := Some (firstAssetId ps),
                    secondAssetAmount := Some (amount s),
                    secondSnapshotId := Some (snapshot_id s), updatedAt := clock w 0\<rparr>)
       \<and> arbitrageOrders (snd (handleArbitrageCreate h w (Some d) (Some s) st)) =
           arbitrageOrders st @
             [\<lparr>orderId = T, userId = opponent_id s, pair = symbol d,
               state = ''created'', balanceA = firstAssetAmount ps,
               balanceB = amount s, createdAt = clock w 1,
               amountToTrade = ''1'', minProfitability = ''0.01'',
               ord_exchangeAName = exchangeAName d,
               ord_exchangeBName = exchangeBName d\<rparr>]
       \<and> paymentStates (snd (handleMarketMakingCreate h w (Some m) (Some s) st)) T =
           Some (ps\<lparr>secondAssetId := Some (firstAssetId ps),
                    secondAssetAmount := Some (amount s),
                    secondSnapshotId := Some (snapshot_id s), updatedAt := clock w 0\<rparr>)
       \<and> map (\<lambda>ord. (orderId ord, state ord, balanceA ord, balanceB ord))
           (marketMakingOrders (snd (handleMarketMakingCreate h w (Some m) (Some s) st))) =
           map (\<lambda>ord. (orderId ord, state ord, balanceA ord, balanceB ord))
             (marketMakingOrders st) @ [(T, ''created'', firstAssetAmount ps, amount s)]"
proof -
  have a: "paymentStates st (traceId d) = Some ps" and b: "paymentStates st (traceId m) = Some ps"
    using assms(1-3) by simp_all
  show ?thesis
    using assms(1,2,5)
    by (simp add: arb_second_leg [OF assms(6) a assms(4) assms(8)]
        mm_second_leg [OF assms(7) b assms(4) assms(8)])
qed

theorem same_asset_fills_second_leg_witness:
  "falsy (secondAssetId
     \<lparr>ps_orderId = ''X'', ps_type = ''arbitrage'', ps_symbol = ''BTC/USDT'',
      firstAssetId = ''btc-asset'', firstAssetAmount = 1/10, firstSnapshotId = ''1'',
      ps_createdAt = ''t0'', updatedAt = ''t0'', secondAssetId = None,
      secondAssetAmount = None, secondSnapshotId = None\<rparr>)
   \<and> \<not> assetMismatch exampleHelpers (symbol arX) (transfer ''2'' ''btc-asset'' (3/10) (Some arMemo))
   \<and> \<not> paymentStateWriteFault calm
   \<and> map (\<lambda>ord. (orderId ord, balanceA ord, balanceB ord))
        (arbitrageOrders (snd (handleArbitrageCreate exampleHelpers calm (Some arX)
           (Some (transfer ''2'' ''btc-asset'' (3/10) (Some arMemo)))
           (emptySys\<lparr>paymentStates := [''X'' \<mapsto>
              \<lparr>ps_orderId = ''X'', ps_type = ''arbitrage'', ps_symbol = ''BTC/USDT'',
               firstAssetId = ''btc-asset'', firstAssetAmount = 1/10, firstSnapshotId = ''1'',
               ps_createdAt = ''t0'', updatedAt = ''t0'', secondAssetId = None,
               secondAssetAmount = None, secondSnapshotId = None\<rparr>]\<rparr>)))) =
       [(''X'', 1/10, 3/10)]
   \<and> map_option (\<lambda>p. (firstAssetId p, secondAssetId p))
        (paymentStates (snd (handleArbitrageCreate exampleHelpers calm (Some arX)
           (Some (transfer ''2'' ''btc-asset'' (3/10) (Some arMemo)))
           (emptySys\<lparr>paymentStates := [''X'' \<mapsto>
              \<lparr>ps_orderId = ''X'', ps_type = ''arbitrage'', ps_symbol = ''BTC/USDT'',
               firstAssetId = ''btc-asset'', firstAssetAmount = 1/10, firstSnapshotId = ''1'',
               ps_createdAt = ''t0'', updatedAt = ''t0'', secondAssetId = None,
               secondAssetAmount = None, secondSnapshotId = None\<rparr>]\<rparr>))) ''X'') =
       Some (''btc-asset'', Some ''btc-asset'')"
proof -
  let ?ps = "\<lparr>ps_orderId = ''X'', ps_type = ''arbitrage'', ps_symbol = ''BTC/USDT'',
      firstAssetId = ''btc-asset'', firstAssetAmount = 1/10, firstSnapshotId = ''1'',
      ps_createdAt = ''t0'', updatedAt = ''t0'', secondAssetId = None,
      secondAssetAmount = None, secondSnapshotId = None\<rparr>"
  let ?s = "transfer ''2'' ''btc-asset'' (3/10) (Some arMemo)"
  let ?st = "emptySys\<lparr>paymentStates := [''X'' \<mapsto> ?ps]\<rparr>"
  let ?m = "mmY\<lparr>traceId := ''X''\<rparr>"
  have 1: "traceId arX = ''X''" and 2: "traceId ?m = ''X''"
    and 3: "paymentStates ?st ''X'' = Some ?ps" and 4: "falsy (secondAssetId ?ps)"
    and 5: "asset_id ?s = firstAssetId ?ps"
    and 6: "\<not> assetMismatch exampleHelpers (symbol arX) ?s"
    and 7: "\<not> assetMismatch exampleHelpers (symbol ?m) ?s"
    and 8: "\<not> paymentStateWriteFault calm"
    by (simp_all add: falsy_def)
  from same_asset_fills_second_leg [OF 1 2 3 4 5 6 7 8] 4 6 8 show ?thesis
    by simp
qed

lemma arb_two_legs:
  assumes "\<not> assetMismatch h (symbol d) x" and "\<not> assetMismatch h (symbol d) y"
    and "paymentStates st (traceId d) = None"
    and "\<not> paymentStateWriteFault w1" and "\<not> paymentStateWriteFault w2"
  shows "arbitrageOrders (snd (handleArbitrageCreate h w2 (Some d) (Some y)
            (snd (handleArbitrageCreate h w1 (Some d) (Some x) st)))) =
         arbitrageOrders st @
           [\<lparr>orderId = traceId d, userId = opponent_id y, pair = symbol d,
             state = ''created'', balanceA = amount x, balanceB = amount y,
             createdAt = clock w2 1, amountToTrade = ''1'', minProfitability = ''0.01'',
             ord_exchangeAName = exchangeAName d, ord_exchangeBName = exchangeBName d\<rparr>]"
    and "map_option (\<lambda>p. (firstAssetAmount p, secondAssetAmount p))
           (paymentStates (snd (handleArbitrageCreate h w2 (Some d) (Some y)
              (snd (handleArbitrageCreate h w1 (Some d) (Some x) st)))) (traceId d)) =
         Some (amount x, Some (amount y))"
proof -
  let ?ps = "\<lparr>ps_orderId = traceId d, ps_type = ''arbitrage'', ps_symbol = symbol d,
         firstAssetId = asset_id x, firstAssetAmount = amount x,
         firstSnapshotId = snapshot_id x, ps_createdAt = clock w1 0, updatedAt = clock w1 0,
         secondAssetId = None, secondAssetAmount = None, secondSnapshotId = None\<rparr>"
  let ?st1 = "st\<lparr>paymentStates := (paymentStates st)(traceId d \<mapsto> ?ps)\<rparr>"
  have 1: "handleArbitrageCreate h w1 (Some d) (Some x) st = (Inr (), ?st1)"
    by (rule arb_first_leg [OF assms(1,3,4)])
  have 2: "paymentStates ?st1 (traceId d) = Some ?ps" and 3: "falsy (secondAssetId ?ps)"
    by (simp_all add: falsy_def)
  note 4 = arb_second_leg [OF assms(2) 2 3 assms(5)]
  show "arbitrageOrders (snd (handleArbitrageCreate h w2 (Some d) (Some y)
            (snd (handleArbitrageCreate h w1 (Some d) (Some x) st)))) =
         arbitrageOrders st @
           [\<lparr>orderId = traceId d, userId = opponent_id y, pair = symbol d,
             state = ''created'', balanceA = amount x, balanceB = amount y,
             createdAt = clock w2 1, amountToTrade = ''1'', minProfitability = ''0.01'',
             ord_exchangeAName = exchangeAName d, ord_exchangeBName = exchangeBName d\<rparr>]"
    by (simp add: 1 4)
  show "map_option (\<lambda>p. (firstAssetAmount p, secondAssetAmount p))
           (paymentStates (snd (handleArbitrageCreate h w2 (Some d) (Some y)
              (snd (handleArbitrageCreate h w1 (Some d) (Some x) st)))) (traceId d)) =
         Some (amount x, Some (amount y))"
    by (simp add: 1 4)
qed

lemma mm_two_legs:
  assumes "\<not> assetMismatch h (symbol d) x" and "\<not> assetMismatch h (symbol d) y"
    and "paymentStates st (traceId d) = None"
    and "\<not> paymentStateWriteFault w1" and "\<not> paymentStateWriteFault w2"
  shows "map (\<lambda>ord. (orderId ord, balanceA ord, balanceB ord))
           (marketMakingOrders (snd (handleMarketMakingCreate h w2 (Some d) (Some y)
              (snd (handleMarketMakingCreate h w1 (Some d) (Some x) st))))) =
         map (\<lambda>ord. (orderId ord, balanceA ord, balanceB ord)) (marketMakingOrders st) @
           [(traceId d, amount x, amount y)]"
    and "map_option (\<lambda>p. (firstAssetAmount p, secondAssetAmount p))
           (paymentStates (snd (handleMarketMakingCreate h w2 (Some d) (Some y)
              (snd (handleMarketMakingCreate h w1 (Some d) (Some x) st)))) (traceId d)) =
         Some (amount x, Some (amount y))"
proof -
  let ?ps = "\<lparr>ps_orderId = traceId d, ps_type = ''market_making'', ps_symbol = symbol d,
         firstAssetId = asset_id x, firstAssetAmount = amount x,
         firstSnapshotId = snapshot_id x, ps_createdAt = clock w1 0, updatedAt = clock w1 0,
         secondAssetId = None, secondAssetAmount = None, secondSnapshotId = None\<rparr>"
  let ?st1 = "st\<lparr>paymentStates := (paymentStates st)(traceId d \<mapsto> ?ps)\<rparr>"
  have 1: "handleMarketMakingCreate h w1 (Some d) (Some x) st = (Inr (), ?st1)"
    by (rule mm_first_leg [OF assms(1,3,4)])
  have 2: "paymentStates ?st1 (traceId d) = Some ?ps" and 3: "falsy (secondAssetId ?ps)"
    by (simp_all add: falsy_def)
  note 4 = mm_second_leg [OF assms(2) 2 3 assms(5)]
  show "map (\<lambda>ord. (orderId ord, balanceA ord, balanceB ord))
           (marketMakingOrders (snd (handleMarketMakingCreate h w2 (Some d) (Some y)
              (snd (handleMarketMakingCreate h w1 (Some d) (Some x) st))))) =
         map (\<lambda>ord. (orderId ord, balanceA ord, balanceB ord)) (marketMakingOrders st) @
           [(traceId d, amount x, amount y)]"
    by (simp add: 1 4)
  show "map_option (\<lambda>p. (firstAssetAmount p, secondAssetAmount p))
           (paymentStates (snd (handleMarketMakingCreate h w2 (Some d) (Some y)
              (snd (handleMarketMakingCreate h w1 (Some d) (Some x) st)))) (traceId d)) =
         Some (amount x, Some (amount y))"
    by (simp add: 1 4)
qed

text \<open>
  C6. Two transfers with one instruction (one trace id), the first in the base asset of
  the pair and the second in the target asset, processed in either order from a state
  without a payment state for the trace id: the order that the second one creates has
  \<^verbatim>\<open>balanceA\<close> equal to the amount of the transfer processed first, which is the
  payment state's first amount, and \<^verbatim>\<open>balanceB\<close> equal to the amount of the transfer
  processed second, whichever asset came first. The same holds for both listeners.
\<close>

theorem leg_order_invariance:
  assumes "getAssetIDBySymbol h (symbol d) = (Some (asset_id a), Some (asset_id b))"
    and "getAssetIDBySymbol h (symbol m) = (Some (asset_id a), Some (asset_id b))"
    and "paymentStates st (traceId d) = None" and "paymentStates st (traceId m) = None"
    and "\<not> paymentStateWriteFault w1" and "\<not> paymentStateWriteFault w2"
  shows "map (\<lambda>ord. (orderId ord, balanceA ord, balanceB ord))
           (arbitrageOrders (snd (handleArbitrageCreate h w2 (Some d) (Some b)
              (snd (handleArbitrageCreate h w1 (Some d) (Some a) st))))) =
         map (\<lambda>ord. (orderId ord, balanceA ord, balanceB ord)) (arbitrageOrders st) @
           [(traceId d, amount a, amount b)]
       \<and> map (\<lambda>ord. (orderId ord, balanceA ord, balanceB ord))
           (arbitrageOrders (snd (handleArbitrageCreate h w2 (Some d) (Some a)
              (snd (handleArbitrageCreate h w1 (Some d) (Some b) st))))) =
         map (\<lambda>ord. (orderId ord, balanceA ord, balanceB ord)) (arbitrageOrders st) @
           [(traceId d, amount b, amount a)]
       \<and> map_option (\<lambda>p. (firstAssetAmount p, secondAssetAmount p))
           (paymentStates (snd (handleArbitrageCreate h w2 (Some d) (Some b)
              (snd (handleArbitrageCreate h w1 (Some d) (Some a) st)))) (traceId d)) =
         Some (amount a, Some (amount b))
       \<and> map_option (\<lambda>p. (firstAssetAmount p, secondAssetAmount p))
           (paymentStates (snd (handleArbitrageCreate h w2 (Some d) (Some a)
              (snd (handleArbitrageCreate h w1 (Some d) (Some b) st)))) (traceId d)) =
         Some (amount b, Some (amount a))
       \<and> map (\<lambda>ord. (orderId ord, balanceA ord, balanceB ord))
           (marketMakingOrders (snd (handleMarketMakingCreate h w2 (Some m) (Some b)
              (snd (handleMarketMakingCreate h w1 (Some m) (Some a) st))))) =
         map (\<lambda>ord. (orderId ord, balanceA ord, balanceB ord)) (marketMakingOrders st) @
           [(traceId m, amount a, amount b)]
       \<and> map (\<lambda>ord. (orderId ord, balanceA ord, balanceB ord))
           (marketMakingOrders (snd (handleMarketMakingCreate h w2 (Some m) (Some a)
              (snd (handleMarketMakingCreate h w1 (Some m) (Some b) st))))) =
         map (\<lambda>ord. (orderId ord, balanceA ord, balanceB ord)) (marketMakingOrders st) @
           [(traceId m, amount b, amount a)]"
proof -
  have va: "\<not> assetMismatch h (symbol d) a" and vb: "\<not> assetMismatch h (symbol d) b"
    and va': "\<not> assetMismatch h (symbol m) a" and vb': "\<not> assetMismatch h (symbol m) b"
    using assms(1,2) by (simp_all add: assetMismatch_def)
  show ?thesis
    by (simp add: arb_two_legs [OF va vb assms(3,5,6)] arb_two_legs [OF vb va assms(3,5,6)]
        mm_two_legs [OF va' vb' assms(4,5,6)] mm_two_legs [OF vb' va' assms(4,5,6)])
qed

theorem leg_order_invariance_witness:
  "getAssetIDBySymbol exampleHelpers (symbol arX) =
     (Some (asset_id (transfer ''1'' ''btc-asset'' (1/10) (Some arMemo))),
      Some (asset_id (transfer ''2'' ''usdt-asset'' 2500 (Some arMemo))))
   \<and> paymentStates emptySys (traceId arX) = None
   \<and> \<not> paymentStateWriteFault calm
   \<and> map (\<lambda>ord. (orderId ord, balanceA ord, balanceB ord))
       (arbitrageOrders (snd (handleArbitrageCreate exampleHelpers calm (Some arX)
          (Some (transfer ''2'' ''usdt-asset'' 2500 (Some arMemo)))
          (snd (handleArbitrageCreate exampleHelpers calm (Some arX)
             (Some (transfer ''1'' ''btc-asset'' (1/10) (Some arMemo))) emptySys))))) =
       [(''X'', 1/10, 2500)]
   \<and> map (\<lambda>ord. (orderId ord, balanceA ord, balanceB ord))
       (arbitrageOrders (snd (handleArbitrageCreate exampleHelpers calm (Some arX)
          (Some (transfer ''1'' ''btc-asset'' (1/10) (Some arMemo)))
          (snd (handleArbitrageCreate exampleHelpers calm (Some arX)
             (Some (transfer ''2'' ''usdt-asset'' 2500 (Some arMemo))) emptySys))))) =
       [(''X'', 2500, 1/10)]
   \<and> map (\<lambda>ord. (orderId ord, balanceA ord, balanceB ord))
       (marketMakingOrders (snd (handleMarketMakingCreate exampleHelpers calm (Some mmY)
          (Some (transfer ''1'' ''btc-asset'' (1/10) (Some arMemo)))
          (snd (handleMarketMakingCreate exampleHelpers calm (Some mmY)
             (Some (transfer ''2'' ''usdt-asset'' 2500 (Some arMemo))) emptySys))))) =
       [(''Y'', 2500, 1/10)]"
proof -
  let ?a = "transfer ''1'' ''btc-asset'' (1/10) (Some arMemo)"
  let ?b = "transfer ''2'' ''usdt-asset'' 2500 (Some arMemo)"
  have 1: "getAssetIDBySymbol exampleHelpers (symbol arX) = (Some (asset_id ?a), Some (asset_id ?b))"
    and 2: "getAssetIDBySymbol exampleHelpers (symbol mmY) = (Some (asset_id ?a), Some (asset_id ?b))"
    and 3: "paymentStates emptySys (traceId arX) = None"
    and 4: "paymentStates emptySys (traceId mmY) = None"
    and 5: "\<not> paymentStateWriteFault calm"
    by simp_all
  from leg_order_invariance [OF 1 2 3 4 5 5] 1 3 5 show ?thesis
    by simp
qed

subsection \<open>The intake pipeline\<close>

lemma createSnapshot_returns [simp]: "fst (createSnapshot w s st) = Inr ()"
  by (simp add: createSnapshot_def repoCreateSnapshot_def)

lemma createSnapshot_frame [simp]:
  "paymentStates (snd (createSnapshot w s st)) = paymentStates st"
  "arbitrageOrders (snd (createSnapshot w s st)) = arbitrageOrders st"
  "marketMakingOrders (snd (createSnapshot w s st)) = marketMakingOrders st"
  "spotEvents (snd (createSnapshot w s st)) = spotEvents st"
  "sent (snd (createSnapshot w s st)) = sent st"
  by (simp_all add: createSnapshot_def repoCreateSnapshot_def)

lemma createSnapshot_snapshots [simp]:
  "snapshots (snd (createSnapshot w s st)) =
     (if snapshotWriteFault w then snapshots st else snapshots st @ [s])"
  by (simp add: createSnapshot_def repoCreateSnapshot_def)

lemma createSnapshot_log [simp]:
  "log (snd (createSnapshot w s st)) =
     (if snapshotWriteFault w then log st @ [''createSnapshot()=> store error''] else log st)"
  by (simp add: createSnapshot_def repoCreateSnapshot_def)

lemma warn_frame [simp]:
  "paymentStates (warn msg st) = paymentStates st"
  "arbitrageOrders (warn msg st) = arbitrageOrders st"
  "marketMakingOrders (warn msg st) = marketMakingOrders st"
  "spotEvents (warn msg st) = spotEvents st"
  "sent (warn msg st) = sent st"
  "snapshots (warn msg st) = snapshots st"
  "log (warn msg st) = log st @ [msg]"
  by (simp_all add: warn_def)

lemma arb_frame [simp]:
  "snapshots (snd (handleArbitrageCreate h w d s st)) = snapshots st"
  "spotEvents (snd (handleArbitrageCreate h w d s st)) = spotEvents st"
  "marketMakingOrders (snd (handleArbitrageCreate h w d s st)) = marketMakingOrders st"
  by (auto simp add: handleArbitrageCreate_def createPaymentState_def
      updatePaymentStateById_def createArbitrage_def findPaymentStateByIdRaw_def Let_def
      split: option.splits prod.splits sum.splits)

lemma mm_frame [simp]:
  "snapshots (snd (handleMarketMakingCreate h w d s st)) = snapshots st"
  "spotEvents (snd (handleMarketMakingCreate h w d s st)) = spotEvents st"
  "arbitrageOrders (snd (handleMarketMakingCreate h w d s st)) = arbitrageOrders st"
  by (auto simp add: handleMarketMakingCreate_def createPaymentState_def
      updatePaymentStateById_def createMarketMaking_def findPaymentStateByIdRaw_def Let_def
      split: option.splits prod.splits sum.splits)

lemma emit_frame [simp]:
  "snapshots (emit (handleArbitrageCreate h w d s) st) = snapshots st"
  "snapshots (emit (handleMarketMakingCreate h w m s) st) = snapshots st"
  "spotEvents (emit (handleArbitrageCreate h w d s) st) = spotEvents st"
  "spotEvents (emit (handleMarketMakingCreate h w m s) st) = spotEvents st"
  by (simp_all add: emit_def)

lemma handleSnapshot_returns [simp]: "fst (handleSnapshot h w s st) = Inr ()"
  by (simp add: handleSnapshot_def Let_def)

lemma handleSnapshot_seen:
  "checkSnapshotExist (snapshot_id s) st \<Longrightarrow> handleSnapshot h w s st = (Inr (), st)"
  by (simp add: handleSnapshot_def)

lemma handleSnapshot_snapshots:
  "\<not> checkSnapshotExist (snapshot_id s) st \<Longrightarrow>
   snapshots (snd (handleSnapshot h w s st)) =
     (if snapshotWriteFault w then snapshots st else snapshots st @ [s])"
  by (simp add: handleSnapshot_def Let_def split: option.splits)


lemma example_decoded:
  "b64 (hexBytes arMemo) = ''AR|X|BTC/USDT|okx|binance''"
  "b64 (hexBytes mmMemo) = ''MM|Y|BTC/USDT|okx''"
  "b64 (hexBytes badMemo) = ''AR|bad''"
  "b64 (hexBytes otherMemo) = ''hello''"
  by code_simp+

lemma example_decoders [simp]:
  "base64ToUtf8 exampleHelpers (hexToUtf8 exampleHelpers arMemo) = ''AR|X|BTC/USDT|okx|binance''"
  "base64ToUtf8 exampleHelpers (hexToUtf8 exampleHelpers mmMemo) = ''MM|Y|BTC/USDT|okx''"
  "base64ToUtf8 exampleHelpers (hexToUtf8 exampleHelpers badMemo) = ''AR|bad''"
  "base64ToUtf8 exampleHelpers (hexToUtf8 exampleHelpers otherMemo) = ''hello''"
  "decodeArbitrageMemo exampleHelpers ''AR|X|BTC/USDT|okx|binance'' = Some arX"
  "decodeMarketMakingMemo exampleHelpers ''MM|Y|BTC/USDT|okx'' = Some mmY"
  "decodeArbitrageMemo exampleHelpers ''AR|bad'' = None"
  by (simp_all add: exampleHelpers_def example_decoded arX_def mmY_def)

lemma example_memos [simp]:
  "arMemo \<noteq> []" "mmMemo \<noteq> []" "badMemo \<noteq> []" "otherMemo \<noteq> []"
  by (simp_all add: arMemo_def mmMemo_def badMemo_def otherMemo_def)

lemma checkSnapshotExist_empty [simp]: "\<not> checkSnapshotExist i emptySys"
  by (simp add: checkSnapshotExist_def)

text \<open>
  C4. When the marker write of the first processing succeeds, processing the same
  transfer again is a no-op: the dedup check finds the marker and \<^verbatim>\<open>handleSnapshot\<close>
  returns the state unchanged, so nothing is decoded, refunded, mutated or created a
  second time. Whatever branch the first processing took, it appended the marker once, as
  its last step on the snapshot table, and after the second processing the table still
  holds exactly one marker of the transfer.
\<close>

theorem reprocessing_is_noop:
  assumes "\<not> snapshotWriteFault w"
  shows "handleSnapshot h w' s (snd (handleSnapshot h w s st)) =
           (Inr (), snd (handleSnapshot h w s st))
       \<and> (\<not> checkSnapshotExist (snapshot_id s) st \<longrightarrow>
            snapshots (snd (handleSnapshot h w s st)) = snapshots st @ [s]
          \<and> length (filter (\<lambda>x. snapshot_id x = snapshot_id s)
               (snapshots (snd (handleSnapshot h w' s (snd (handleSnapshot h w s st)))))) = 1)"
proof -
  have seen: "checkSnapshotExist (snapshot_id s) (snd (handleSnapshot h w s st))"
  proof (cases "checkSnapshotExist (snapshot_id s) st")
    case True
    then show ?thesis by (simp add: handleSnapshot_seen)
  next
    case False
    with assms show ?thesis
      by (simp add: checkSnapshotExist_def handleSnapshot_snapshots)
  qed
  then have again: "handleSnapshot h w' s (snd (handleSnapshot h w s st)) =
      (Inr (), snd (handleSnapshot h w s st))"
    by (rule handleSnapshot_seen)
  have "filter (\<lambda>x. snapshot_id x = snapshot_id s) (snapshots st) = []"
    if "\<not> checkSnapshotExist (snapshot_id s) st"
    using that by (auto simp add: checkSnapshotExist_def filter_empty_conv image_iff)
  with assms again show ?thesis
    by (simp add: handleSnapshot_snapshots)
qed

theorem reprocessing_is_noop_witness:
  "\<not> snapshotWriteFault calm
   \<and> \<not> checkSnapshotExist (snapshot_id (transfer ''1'' ''btc-asset'' (1/10) (Some arMemo))) emptySys
   \<and> handleSnapshot exampleHelpers calm (transfer ''1'' ''btc-asset'' (1/10) (Some arMemo))
       (snd (handleSnapshot exampleHelpers calm
          (transfer ''1'' ''btc-asset'' (1/10) (Some arMemo)) emptySys)) =
      (Inr (), emptySys\<lparr>snapshots := [transfer ''1'' ''btc-asset'' (1/10) (Some arMemo)],
         paymentStates := [''X'' \<mapsto>
           \<lparr>ps_orderId = ''X'', ps_type = ''arbitrage'', ps_symbol = ''BTC/USDT'',
            firstAssetId = ''btc-asset'', firstAssetAmount = 1/10, firstSnapshotId = ''1'',
            ps_createdAt = ''t0'', updatedAt = ''t0'', secondAssetId = None,
            secondAssetAmount = None, secondSnapshotId = None\<rparr>]\<rparr>)"
proof -
  let ?s = "transfer ''1'' ''btc-asset'' (1/10) (Some arMemo)"
  have a: "\<not> snapshotWriteFault calm" and b: "\<not> checkSnapshotExist (snapshot_id ?s) emptySys"
    by simp_all
  have c: "snd (handleSnapshot exampleHelpers calm ?s emptySys) =
      emptySys\<lparr>snapshots := [?s],
         paymentStates := [''X'' \<mapsto>
           \<lparr>ps_orderId = ''X'', ps_type = ''arbitrage'', ps_symbol = ''BTC/USDT'',
            firstAssetId = ''btc-asset'', firstAssetAmount = 1/10, firstSnapshotId = ''1'',
            ps_createdAt = ''t0'', updatedAt = ''t0'', secondAssetId = None,
            secondAssetAmount = None, secondSnapshotId = None\<rparr>]\<rparr>"
    by (simp add: handleSnapshot_def Let_def falsy_def emit_def arb_first_leg
        createSnapshot_def repoCreateSnapshot_def)
  from reprocessing_is_noop [OF a, of exampleHelpers calm ?s emptySys] a b show ?thesis
    by (simp add: c)
qed

lemma archivedOnly_createSnapshot [simp]: "archivedOnly w s st (snd (createSnapshot w s st))"
  by (simp add: archivedOnly_def)

lemma archivedOnly_warn [simp]: "archivedOnly w s st (warn msg st') = archivedOnly w s st st'"
  by (simp add: archivedOnly_def)

text \<open>
  C5. For a transfer not yet in the snapshot table, \<^verbatim>\<open>handleSnapshot\<close> decodes a
  non-empty memo from hexadecimal first and from base64 second, and the first two
  characters of the resulting text select the instruction: \<^verbatim>\<open>SP\<close> with decoded spot
  details emits the spot event, \<^verbatim>\<open>AR\<close> with decoded arbitrage details calls the
  arbitrage listener, \<^verbatim>\<open>MM\<close> with decoded market-making details calls the
  market-making listener, each followed by \<^verbatim>\<open>createSnapshot\<close>. With an absent or
  empty memo, with any other prefix, or when the decoder of the selected kind returns
  nothing, there is no instruction: the transfer is archived (the marker is written unless
  the write itself fails), nothing is refunded and no payment state or order is touched.
\<close>

theorem memo_dispatch:
  assumes "\<not> checkSnapshotExist (snapshot_id s) st"
  shows "(falsy (memo s) \<longrightarrow> archivedOnly w s st (snd (handleSnapshot h w s st)))
       \<and> (\<forall>m. memo s = Some m \<and> m \<noteq> [] \<longrightarrow>
            (let decodedMemo = base64ToUtf8 h (hexToUtf8 h m);
                 tradingType = take 2 decodedMemo
             in (\<forall>d. tradingType = ''SP'' \<and> decodeSpotMemo h decodedMemo = Some d \<longrightarrow>
                   handleSnapshot h w s st =
                     createSnapshot w s (st\<lparr>spotEvents := spotEvents st @ [(d, s)]\<rparr>))
              \<and> (\<forall>d. tradingType = ''AR'' \<and> decodeArbitrageMemo h decodedMemo = Some d \<longrightarrow>
                   handleSnapshot h w s st =
                     createSnapshot w s (emit (handleArbitrageCreate h w (Some d) (Some s)) st))
              \<and> (\<forall>d. tradingType = ''MM'' \<and> decodeMarketMakingMemo h decodedMemo = Some d \<longrightarrow>
                   handleSnapshot h w s st =
                     createSnapshot w s
                       (emit (handleMarketMakingCreate h w (Some d) (Some s)) st))
              \<and> ((tradingType \<noteq> ''SP'' \<and> tradingType \<noteq> ''AR'' \<and> tradingType \<noteq> ''MM'')
                  \<or> (tradingType = ''SP'' \<and> decodeSpotMemo h decodedMemo = None)
                  \<or> (tradingType = ''AR'' \<and> decodeArbitrageMemo h decodedMemo = None)
                  \<or> (tradingType = ''MM'' \<and> decodeMarketMakingMemo h decodedMemo = None) \<longrightarrow>
                  archivedOnly w s st (snd (handleSnapshot h w s st)))))"
proof (intro conjI impI allI)
  assume "falsy (memo s)"
  with assms show "archivedOnly w s st (snd (handleSnapshot h w s st))"
    by (simp add: handleSnapshot_def)
next
  fix m
  assume m: "memo s = Some m \<and> m \<noteq> []"
  then have nf: "\<not> falsy (memo s)"
    by (simp add: falsy_def)
  from m assms nf show "let decodedMemo = base64ToUtf8 h (hexToUtf8 h m);
                 tradingType = take 2 decodedMemo
             in (\<forall>d. tradingType = ''SP'' \<and> decodeSpotMemo h decodedMemo = Some d \<longrightarrow>
                   handleSnapshot h w s st =
                     createSnapshot w s (st\<lparr>spotEvents := spotEvents st @ [(d, s)]\<rparr>))
              \<and> (\<forall>d. tradingType = ''AR'' \<and> decodeArbitrageMemo h decodedMemo = Some d \<longrightarrow>
                   handleSnapshot h w s st =
                     createSnapshot w s (emit (handleArbitrageCreate h w (Some d) (Some s)) st))
              \<and> (\<forall>d. tradingType = ''MM'' \<and> decodeMarketMakingMemo h decodedMemo = Some d \<longrightarrow>
                   handleSnapshot h w s st =
                     createSnapshot w s
                       (emit (handleMarketMakingCreate h w (Some d) (Some s)) st))
              \<and> ((tradingType \<noteq> ''SP'' \<and> tradingType \<noteq> ''AR'' \<and> tradingType \<noteq> ''MM'')
                  \<or> (tradingType = ''SP'' \<and> decodeSpotMemo h decodedMemo = None)
                  \<or> (tradingType = ''AR'' \<and> decodeArbitrageMemo h decodedMemo = None)
                  \<or> (tradingType = ''MM'' \<and> decodeMarketMakingMemo h decodedMemo = None) \<longrightarrow>
                  archivedOnly w s st (snd (handleSnapshot h w s st)))"
    by (auto simp add: handleSnapshot_def Let_def)
qed


theorem memo_dispatch_witness:
  "\<not> checkSnapshotExist (snapshot_id (transfer ''1'' ''btc-asset'' 1 None)) emptySys
   \<and> falsy (memo (transfer ''1'' ''btc-asset'' 1 None))
   \<and> archivedOnly calm (transfer ''1'' ''btc-asset'' 1 None) emptySys
        (snd (handleSnapshot exampleHelpers calm (transfer ''1'' ''btc-asset'' 1 None) emptySys))
   \<and> snapshots
        (snd (handleSnapshot exampleHelpers calm (transfer ''1'' ''btc-asset'' 1 None) emptySys)) =
       [transfer ''1'' ''btc-asset'' 1 None]
   \<and> take 2 (base64ToUtf8 exampleHelpers (hexToUtf8 exampleHelpers otherMemo)) = ''he''
   \<and> archivedOnly calm (transfer ''1'' ''btc-asset'' 1 (Some otherMemo)) emptySys
        (snd (handleSnapshot exampleHelpers calm
           (transfer ''1'' ''btc-asset'' 1 (Some otherMemo)) emptySys))
   \<and> take 2 (base64ToUtf8 exampleHelpers (hexToUtf8 exampleHelpers badMemo)) = ''AR''
   \<and> decodeArbitrageMemo exampleHelpers
        (base64ToUtf8 exampleHelpers (hexToUtf8 exampleHelpers badMemo)) = None
   \<and> archivedOnly calm (transfer ''1'' ''btc-asset'' 1 (Some badMemo)) emptySys
        (snd (handleSnapshot exampleHelpers calm
           (transfer ''1'' ''btc-asset'' 1 (Some badMemo)) emptySys))
   \<and> decodeArbitrageMemo exampleHelpers
        (base64ToUtf8 exampleHelpers (hexToUtf8 exampleHelpers arMemo)) = Some arX
   \<and> handleSnapshot exampleHelpers calm (transfer ''1'' ''btc-asset'' 1 (Some arMemo)) emptySys =
       createSnapshot calm (transfer ''1'' ''btc-asset'' 1 (Some arMemo))
         (emit (handleArbitrageCreate exampleHelpers calm (Some arX)
            (Some (transfer ''1'' ''btc-asset'' 1 (Some arMemo)))) emptySys)"
proof -
  have a: "\<not> checkSnapshotExist (snapshot_id (transfer ''1'' ''btc-asset'' 1 mo)) emptySys" for mo
    by simp
  have b: "falsy (memo (transfer ''1'' ''btc-asset'' 1 None))"
    by (simp add: falsy_def)
  from memo_dispatch [OF a, of None calm exampleHelpers]
    memo_dispatch [OF a, of "Some otherMemo" calm exampleHelpers]
    memo_dispatch [OF a, of "Some badMemo" calm exampleHelpers]
    memo_dispatch [OF a, of "Some arMemo" calm exampleHelpers]
    a [of None] b
  show ?thesis
    by (simp add: archivedOnly_def)
qed

subsection \<open>Store errors\<close>

lemma listeners_ignore_snapshot_fault [simp]:
  "handleArbitrageCreate h (w\<lparr>snapshotWriteFault := b\<rparr>) d s st = handleArbitrageCreate h w d s st"
  "handleMarketMakingCreate h (w\<lparr>snapshotWriteFault := b\<rparr>) m s st =
     handleMarketMakingCreate h w m s st"
  by (simp_all add: handleArbitrageCreate_def handleMarketMakingCreate_def refund_def
      sendMixinTx_def createPaymentState_def updatePaymentStateById_def Let_def
      split: option.splits)

lemma arb_write_fault:
  "paymentStateWriteFault w \<Longrightarrow>
   paymentStates (snd (handleArbitrageCreate h w d s st)) = paymentStates st
   \<and> arbitrageOrders (snd (handleArbitrageCreate h w d s st)) = arbitrageOrders st"
  by (auto simp add: handleArbitrageCreate_def createPaymentState_def
      updatePaymentStateById_def Let_def split: option.splits)

lemma mm_write_fault:
  "paymentStateWriteFault w \<Longrightarrow>
   paymentStates (snd (handleMarketMakingCreate h w d s st)) = paymentStates st
   \<and> marketMakingOrders (snd (handleMarketMakingCreate h w d s st)) = marketMakingOrders st"
  by (auto simp add: handleMarketMakingCreate_def createPaymentState_def
      updatePaymentStateById_def Let_def split: option.splits)

lemma handleSnapshot_write_fault:
  assumes "paymentStateWriteFault w"
  shows "paymentStates (snd (handleSnapshot h w s st)) = paymentStates st"
    and "arbitrageOrders (snd (handleSnapshot h w s st)) = arbitrageOrders st"
    and "marketMakingOrders (snd (handleSnapshot h w s st)) = marketMakingOrders st"
  using assms
  by (simp_all add: handleSnapshot_def Let_def emit_def arb_write_fault mm_write_fault
      split: option.splits)

lemma handleSnapshot_marker_fault:
  "paymentStates (snd (handleSnapshot h (w\<lparr>snapshotWriteFault := b\<rparr>) s st)) =
     paymentStates (snd (handleSnapshot h w s st))"
  "arbitrageOrders (snd (handleSnapshot h (w\<lparr>snapshotWriteFault := b\<rparr>) s st)) =
     arbitrageOrders (snd (handleSnapshot h w s st))"
  "marketMakingOrders (snd (handleSnapshot h (w\<lparr>snapshotWriteFault := b\<rparr>) s st)) =
     marketMakingOrders (snd (handleSnapshot h w s st))"
  "sent (snd (handleSnapshot h (w\<lparr>snapshotWriteFault := b\<rparr>) s st)) =
     sent (snd (handleSnapshot h w s st))"
  by (simp_all add: handleSnapshot_def Let_def emit_def warn_def split: option.splits)

lemma handleSnapshot_fault_logged:
  "snapshotWriteFault w \<Longrightarrow> \<not> checkSnapshotExist (snapshot_id s) st \<Longrightarrow>
   ''createSnapshot()=> store error'' \<in> set (log (snd (handleSnapshot h w s st)))"
  by (simp add: handleSnapshot_def Let_def)

text \<open>
  C7, as the code has it. A store error is never propagated by \<^verbatim>\<open>createSnapshot\<close> or
  by \<^verbatim>\<open>handleSnapshot\<close>: both resolve normally in every world. When the marker write
  fails, \<^verbatim>\<open>createSnapshot\<close> logs the error; the marker is missing, so the transfer stays
  eligible for reprocessing, and the payment states, the orders and the submitted
  transactions are those of the run in which the marker write succeeds. When the
  payment-state write fails, the listener alone is aborted: no payment state is written
  and no order is created, and the transfer is archived all the same.
\<close>

theorem store_errors_are_caught:
  "fst (createSnapshot w s st) = Inr ()
   \<and> fst (handleSnapshot h w s st) = Inr ()
   \<and> (snapshotWriteFault w \<and> \<not> checkSnapshotExist (snapshot_id s) st \<longrightarrow>
        \<not> checkSnapshotExist (snapshot_id s) (snd (handleSnapshot h w s st))
        \<and> ''createSnapshot()=> store error'' \<in> set (log (snd (handleSnapshot h w s st)))
        \<and> paymentStates (snd (handleSnapshot h w s st)) =
            paymentStates (snd (handleSnapshot h (w\<lparr>snapshotWriteFault := False\<rparr>) s st))
        \<and> arbitrageOrders (snd (handleSnapshot h w s st)) =
            arbitrageOrders (snd (handleSnapshot h (w\<lparr>snapshotWriteFault := False\<rparr>) s st))
        \<and> marketMakingOrders (snd (handleSnapshot h w s st)) =
            marketMakingOrders (snd (handleSnapshot h (w\<lparr>snapshotWriteFault := False\<rparr>) s st))
        \<and> sent (snd (handleSnapshot h w s st)) =
            sent (snd (handleSnapshot h (w\<lparr>snapshotWriteFault := False\<rparr>) s st)))
   \<and> (paymentStateWriteFault w \<longrightarrow>
        paymentStates (snd (handleSnapshot h w s st)) = paymentStates st
        \<and> arbitrageOrders (snd (handleSnapshot h w s st)) = arbitrageOrders st
        \<and> marketMakingOrders (snd (handleSnapshot h w s st)) = marketMakingOrders st)
   \<and> (paymentStateWriteFault w \<and> \<not> snapshotWriteFault w \<longrightarrow>
        checkSnapshotExist (snapshot_id s) (snd (handleSnapshot h w s st)))"
proof -
  have seen: "checkSnapshotExist (snapshot_id s) (snd (handleSnapshot h w s st))"
    if "\<not> snapshotWriteFault w"
  proof (cases "checkSnapshotExist (snapshot_id s) st")
    case True
    then show ?thesis by (simp add: handleSnapshot_seen)
  next
    case False
    with that show ?thesis
      by (simp add: checkSnapshotExist_def handleSnapshot_snapshots)
  qed
  have unseen: "\<not> checkSnapshotExist (snapshot_id s) (snd (handleSnapshot h w s st))"
    if "snapshotWriteFault w" and "\<not> checkSnapshotExist (snapshot_id s) st"
    using that by (simp add: checkSnapshotExist_def handleSnapshot_snapshots)
  show ?thesis
    using seen unseen
    by (simp add: handleSnapshot_write_fault handleSnapshot_marker_fault
        handleSnapshot_fault_logged)
qed


theorem store_errors_are_caught_witness:
  "snapshotWriteFault (calm\<lparr>snapshotWriteFault := True\<rparr>)
   \<and> \<not> checkSnapshotExist (snapshot_id (transfer ''1'' ''btc-asset'' (1/10) (Some arMemo))) emptySys
   \<and> fst (handleSnapshot exampleHelpers (calm\<lparr>snapshotWriteFault := True\<rparr>)
        (transfer ''1'' ''btc-asset'' (1/10) (Some arMemo)) emptySys) = Inr ()
   \<and> \<not> checkSnapshotExist ''1''
        (snd (handleSnapshot exampleHelpers (calm\<lparr>snapshotWriteFault := True\<rparr>)
           (transfer ''1'' ''btc-asset'' (1/10) (Some arMemo)) emptySys))
   \<and> paymentStateWriteFault (calm\<lparr>paymentStateWriteFault := True\<rparr>)
   \<and> \<not> snapshotWriteFault (calm\<lparr>paymentStateWriteFault := True\<rparr>)
   \<and> paymentStates
        (snd (handleSnapshot exampleHelpers (calm\<lparr>paymentStateWriteFault := True\<rparr>)
           (transfer ''1'' ''btc-asset'' (1/10) (Some arMemo)) emptySys)) = Map.empty
   \<and> checkSnapshotExist ''1''
        (snd (handleSnapshot exampleHelpers (calm\<lparr>paymentStateWriteFault := True\<rparr>)
           (transfer ''1'' ''btc-asset'' (1/10) (Some arMemo)) emptySys))"
proof -
  let ?s = "transfer ''1'' ''btc-asset'' (1/10) (Some arMemo)"
  from store_errors_are_caught [of "calm\<lparr>snapshotWriteFault := True\<rparr>" ?s emptySys exampleHelpers]
    store_errors_are_caught [of "calm\<lparr>paymentStateWriteFault := True\<rparr>" ?s emptySys exampleHelpers]
  show ?thesis
    by simp
qed

text \<open>
  The claim C7 as stated fails. With the snapshot table unwritable, the repository raises
  the store error, \<^verbatim>\<open>handleSnapshot\<close> resolves normally and the payment state created
  on the way is kept. With the payment-state table unwritable, the listener is rejected
  with the store error, \<^verbatim>\<open>handleSnapshot\<close> resolves normally, no payment state exists
  and the transfer is marked as processed, so it is not eligible for reprocessing.
\<close>

theorem store_error_counterexample:
  "fst (repoCreateSnapshot (calm\<lparr>snapshotWriteFault := True\<rparr>)
      (transfer ''1'' ''btc-asset'' (1/10) (Some arMemo)) emptySys) = Inl StoreError
   \<and> fst (handleSnapshot exampleHelpers (calm\<lparr>snapshotWriteFault := True\<rparr>)
        (transfer ''1'' ''btc-asset'' (1/10) (Some arMemo)) emptySys) = Inr ()
   \<and> paymentStates
        (snd (handleSnapshot exampleHelpers (calm\<lparr>snapshotWriteFault := True\<rparr>)
           (transfer ''1'' ''btc-asset'' (1/10) (Some arMemo)) emptySys)) ''X'' \<noteq> None
   \<and> fst (handleArbitrageCreate exampleHelpers (calm\<lparr>paymentStateWriteFault := True\<rparr>)
        (Some arX) (Some (transfer ''1'' ''btc-asset'' (1/10) (Some arMemo))) emptySys) =
       Inl StoreError
   \<and> fst (handleSnapshot exampleHelpers (calm\<lparr>paymentStateWriteFault := True\<rparr>)
        (transfer ''1'' ''btc-asset'' (1/10) (Some arMemo)) emptySys) = Inr ()
   \<and> paymentStates
        (snd (handleSnapshot exampleHelpers (calm\<lparr>paymentStateWriteFault := True\<rparr>)
           (transfer ''1'' ''btc-asset'' (1/10) (Some arMemo)) emptySys)) ''X'' = None
   \<and> checkSnapshotExist ''1''
        (snd (handleSnapshot exampleHelpers (calm\<lparr>paymentStateWriteFault := True\<rparr>)
           (transfer ''1'' ''btc-asset'' (1/10) (Some arMemo)) emptySys))"
  by (simp add: handleSnapshot_def Let_def falsy_def emit_def arb_first_leg
      repoCreateSnapshot_def checkSnapshotExist_def handleArbitrageCreate_def
      findPaymentStateByIdRaw_def createPaymentState_def)

subsection \<open>One order per trace id\<close>









lemma arbitrage_read_then_rest:
  "handleArbitrageCreate h w (Some d) (Some s) st =
     arbitrageAfterRead h w d s (findPaymentStateByIdRaw (traceId d) st) st"
  by (simp add: handleArbitrageCreate_def arbitrageAfterRead_def Let_def)









subsection \<open>Poll cycles\<close>

text \<open>
  C8, as the code has it. Poll cycles are not serialised. With cron disabled a tick does
  nothing. With cron enabled a tick that fetches a batch starts one handler per transfer
  and returns without waiting for any of them: the store is as before, and the handlers
  are added to those still pending, whatever these are, so no cycle is skipped and none
  is queued behind another.
\<close>

theorem cycles_are_not_serialised:
  "handleSnapshots False f n = n
   \<and> pending (handleSnapshots True (Fetched xs) n) = pending n @ xs
   \<and> store (handleSnapshots True (Fetched xs) n) = store n"
  by (simp add: handleSnapshots_def fetchAndProcessSnapshots_def)

text \<open>
  The claim C8 as stated fails. After a tick that fetched one transfer the cycle is over
  while the handling it started is still pending and nothing has been written to the
  store; a second tick in that situation is not skipped: it starts the handling of its
  own transfer next to the pending one.
\<close>

theorem overlapping_cycles_counterexample:
  "pending (handleSnapshots True
      (Fetched [transfer ''1'' ''btc-asset'' (1/10) (Some arMemo)])
      \<lparr>store = emptySys, pending = []\<rparr>) =
     [transfer ''1'' ''btc-asset'' (1/10) (Some arMemo)]
   \<and> store (handleSnapshots True
      (Fetched [transfer ''1'' ''btc-asset'' (1/10) (Some arMemo)])
      \<lparr>store = emptySys, pending = []\<rparr>) = emptySys
   \<and> pending (handleSnapshots True
      (Fetched [transfer ''2'' ''usdt-asset'' 2500 (Some arMemo)])
      (handleSnapshots True
        (Fetched [transfer ''1'' ''btc-asset'' (1/10) (Some arMemo)])
        \<lparr>store = emptySys, pending = []\<rparr>)) =
     [transfer ''1'' ''btc-asset'' (1/10) (Some arMemo),
      transfer ''2'' ''usdt-asset'' 2500 (Some arMemo)]"
  by (simp add: handleSnapshots_def fetchAndProcessSnapshots_def)

end
